theory Spec2Isabelle
  imports Complex_Main
begin

section \<open>Registry Central: data model\<close>

text \<open>
  The registry keeps five tables (\<^verbatim>\<open>database/schema.sql\<close>); the services read and write
  them through repositories. Each table is a list of rows, a query is a \<open>filter\<close> or a
  \<open>find\<close> over the list, and an \<^verbatim>\<open>UPDATE ... WHERE id = $1\<close> rewrites every row with that id.

  JavaScript numbers are modelled as \<open>int\<close> where the column is an \<^verbatim>\<open>INTEGER\<close> and as \<open>real\<close>
  otherwise; the rounding of IEEE doubles and of \<^verbatim>\<open>NUMERIC(3, 2)\<close> columns is not modelled.
  Strings are lists of characters with code points below 256. Timestamps are milliseconds.
  \<^verbatim>\<open>process.env.NODE_ENV === 'production'\<close> is the boolean parameter \<open>production\<close>, \<^verbatim>\<open>NOW()\<close> and
  \<^verbatim>\<open>Date.now()\<close> the parameter \<open>now\<close>. Requests are typed as their TypeScript interfaces say,
  so the \<^verbatim>\<open>typeof\<close> checks of the validators always pass; an optional field is an \<open>option\<close>.
\<close>

datatype AgentStatus = Active | Quarantine | Banned

text \<open>
  The reason written with a status change. The source builds a text with the number
  rendered by \<^verbatim>\<open>toFixed\<close>; the model keeps which reason it is and the number.
\<close>

datatype Reason =
    Success_rate_below_40 real
  | Average_rating_below_03 real
  | Latency_above_30s real
  | Fraud_above_50 real
  | Threshold_2_success_rate_below_20 real
  | Threshold_2_rating_below_015 real
  | Threshold_2_fraud_above_70 real
  | Threshold_2_self_rating_above_80 real
  | Threshold_2_reached

record Agent =
  ident :: string
  name :: string
  endpoint :: string
  description :: string
  intents :: "string list"
  tasks :: "string list"
  tags :: "string list"
  categories :: "string list"
  location_scope :: string
  languages :: "string list"
  version :: string
  input_schema :: "string option"
  caller_id :: "string option"
  status :: "AgentStatus option"
  quarantine_reason :: "Reason option"
  quarantine_at :: "int option"

record AgentStats =
  agent_id :: string
  calls_total :: int
  calls_success :: int
  avg_latency_ms :: real
  avg_rating :: real
  last_feedback_at :: "int option"

record AgentFeedback =
  fb_agent_id :: string
  consumer_id :: string
  success :: bool
  latency_ms :: real
  rating :: real
  created_at :: int

datatype FraudType = SELF_RATING | SPAM | RATING_PATTERN | LATENCY_INCONSISTENT
datatype FraudSeverity = LOW | MEDIUM | HIGH | CRITICAL

record FraudDetection =
  fd_agent_id :: string
  fd_consumer_id :: "string option"
  fraud_type :: FraudType
  severity :: FraudSeverity
  detected_at :: int

datatype CallerType = Consumer | Provider

record Caller =
  c_caller_id :: string
  c_type :: CallerType
  c_identifier :: string
  jwt_token :: "string option"
  is_active :: bool

record db =
  agents :: "Agent list"
  agent_stats :: "AgentStats list"
  agent_feedbacks :: "AgentFeedback list"
  fraud_detection_log :: "FraudDetection list"
  callers :: "Caller list"

text \<open>The errors thrown by the services (the source throws \<^verbatim>\<open>Error\<close> objects with a message).\<close>

datatype Error =
    Agent_id_required
  | Latency_must_be_non_negative
  | Rating_must_be_between_0_and_1
  | Rate_limit_exceeded
  | Agent_not_found
  | Blocked_spam
  | Categories_required
  | Database_error

subsection \<open>JavaScript helpers\<close>

text \<open>\<^verbatim>\<open>Number(x) || d\<close> on a number: \<open>0\<close> is falsy, so it is replaced by the default.\<close>

definition number_or :: "real \<Rightarrow> real \<Rightarrow> real" where
  "number_or x d = (if x = 0 then d else x)"

text \<open>\<^verbatim>\<open>Math.round\<close>: the nearest integer, halves rounded up.\<close>

definition Math_round :: "real \<Rightarrow> int" where
  "Math_round x = \<lfloor>x + 1 / 2\<rfloor>"

text \<open>\<^verbatim>\<open>!s\<close> on an optional string: \<^verbatim>\<open>undefined\<close>, \<^verbatim>\<open>null\<close> and the empty string are falsy.\<close>

definition falsy :: "string option \<Rightarrow> bool" where
  "falsy s = (case s of None \<Rightarrow> True | Some v \<Rightarrow> v = [])"

subsection \<open>Repositories\<close>

definition findById :: "db \<Rightarrow> string \<Rightarrow> Agent option" where
  "findById d i = find (\<lambda>a. ident a = i) (agents d)"

definition findAll :: "db \<Rightarrow> Agent list" where
  "findAll d = agents d"

definition findByAgentId :: "db \<Rightarrow> string \<Rightarrow> AgentStats option" where
  "findByAgentId d agentId = find (\<lambda>s. agent_id s = agentId) (agent_stats d)"

record FraudStats =
  total :: nat
  selfRatingCount :: nat
  selfRatingPercentage :: real

definition getFraudStats :: "db \<Rightarrow> string \<Rightarrow> FraudStats" where
  "getFraudStats d agentId =
    (let agentCallerId = (case findById d agentId of None \<Rightarrow> None | Some a \<Rightarrow> caller_id a);
         tot = length (filter (\<lambda>f. fb_agent_id f = agentId) (agent_feedbacks d));
         selfCount = (case agentCallerId of
             None \<Rightarrow> 0
           | Some c \<Rightarrow> if c = [] then 0
               else length (filter (\<lambda>f. fb_agent_id f = agentId \<and> consumer_id f = c)
                      (agent_feedbacks d)))
     in \<lparr> total = tot, selfRatingCount = selfCount,
          selfRatingPercentage = (if tot > 0 then (real selfCount / real tot) * 100 else 0) \<rparr>)"

definition getTotalFraudCount :: "db \<Rightarrow> string \<Rightarrow> nat" where
  "getTotalFraudCount d agentId =
    length (filter (\<lambda>f. fd_agent_id f = agentId) (fraud_detection_log d))"

section \<open>Fraud percentage\<close>

definition calculateFraudPercentage :: "bool \<Rightarrow> db \<Rightarrow> string \<Rightarrow> real" where
  "calculateFraudPercentage production d agentId =
    (if \<not> production then 0
     else let fraudStats = getFraudStats d agentId;
              totalFraudCount = getTotalFraudCount d agentId
          in if total fraudStats = 0 then 0
             else min 100 ((real totalFraudCount / real (total fraudStats)) * 100))"

section \<open>Quarantine service\<close>

datatype Risk = low | medium | high | critical

text \<open>
  A warning of the health report. The source renders the number into the text with
  \<^verbatim>\<open>toFixed\<close>; the model keeps the kind of the warning and the number.
\<close>

datatype Warning =
    Low_success_rate real
  | Low_average_rating real
  | High_latency real
  | Fraud_detected real
  | Very_low_success_rate real
  | Very_low_rating real
  | Excessive_fraud real
  | Excessive_self_rating real

record Metrics =
  success_rate :: real
  m_avg_rating :: real
  m_avg_latency_ms :: real
  total_feedbacks :: int
  fraud_detected :: real
  fraud_percentage :: real
  self_rating_percentage :: real

record AgentHealthMetrics =
  h_agent_id :: string
  h_status :: AgentStatus
  health_score :: real
  metrics :: Metrics
  warnings :: "Warning list"
  quarantine_risk :: Risk
  h_quarantine_reason :: "Reason option"
  h_quarantine_at :: "int option"

text \<open>The weighted sum of lines 59-64 of \<^verbatim>\<open>quarantine.service.ts\<close>.\<close>

definition healthScore :: "real \<Rightarrow> real \<Rightarrow> real \<Rightarrow> real \<Rightarrow> real" where
  "healthScore successRate avgRating avgLatency fraudPercentage =
     successRate * 0.4 + avgRating * 0.3 + (1 - min (avgLatency / 10000) 1) * 0.1
       + (1 - fraudPercentage / 100) * 0.2"

text \<open>
  The eight threshold checks of the health report run in the source's order, each one
  appending its warning and overwriting the risk.
\<close>

definition check :: "bool \<Rightarrow> Warning \<Rightarrow> Risk \<Rightarrow> Warning list \<times> Risk \<Rightarrow> Warning list \<times> Risk" where
  "check c w r acc = (if c then (fst acc @ [w], r) else acc)"

definition healthChecks :: "int \<Rightarrow> real \<Rightarrow> real \<Rightarrow> real \<Rightarrow> real \<Rightarrow> real \<Rightarrow> Warning list \<times> Risk" where
  "healthChecks callsTotal successRate avgRating avgLatency fraudPercentage selfRatingPct =
    (check (selfRatingPct > 80) (Excessive_self_rating selfRatingPct) critical
    (check (fraudPercentage > 70) (Excessive_fraud fraudPercentage) critical
    (check (callsTotal \<ge> 30 \<and> avgRating < 0.15) (Very_low_rating avgRating) critical
    (check (callsTotal \<ge> 40 \<and> successRate < 0.20) (Very_low_success_rate successRate) critical
    (check (fraudPercentage > 50) (Fraud_detected fraudPercentage) high
    (check (callsTotal \<ge> 10 \<and> avgLatency > 30000) (High_latency avgLatency) high
    (check (callsTotal \<ge> 15 \<and> avgRating < 0.3) (Low_average_rating avgRating) high
    (check (callsTotal \<ge> 20 \<and> successRate < 0.40) (Low_success_rate successRate) high
      ([], low)))))))))"

definition agentStatus :: "Agent \<Rightarrow> AgentStatus" where
  "agentStatus a = (case status a of None \<Rightarrow> Active | Some s \<Rightarrow> s)"

definition checkAgentHealth :: "bool \<Rightarrow> db \<Rightarrow> string \<Rightarrow> AgentHealthMetrics option" where
  "checkAgentHealth production d agentId =
    (case findById d agentId of
       None \<Rightarrow> None
     | Some agent \<Rightarrow>
        (case findByAgentId d agentId of
           None \<Rightarrow> Some \<lparr> h_agent_id = agentId, h_status = agentStatus agent, health_score = 1,
               metrics = \<lparr> success_rate = 0, m_avg_rating = 0, m_avg_latency_ms = 0,
                           total_feedbacks = 0, fraud_detected = 0, fraud_percentage = 0,
                           self_rating_percentage = 0 \<rparr>,
               warnings = [], quarantine_risk = low,
               h_quarantine_reason = None, h_quarantine_at = None \<rparr>
         | Some stats \<Rightarrow>
            (let successRate = (if calls_total stats > 0
                                then real_of_int (calls_success stats) / real_of_int (calls_total stats)
                                else 0);
                 avgRating = number_or (avg_rating stats) 0;
                 avgLatency = number_or (avg_latency_ms stats) 0;
                 fraudPercentage = calculateFraudPercentage production d agentId;
                 fraudStats = getFraudStats d agentId;
                 score = healthScore successRate avgRating avgLatency fraudPercentage;
                 wr = healthChecks (calls_total stats) successRate avgRating avgLatency
                        fraudPercentage (selfRatingPercentage fraudStats)
             in Some \<lparr> h_agent_id = agentId, h_status = agentStatus agent,
                  health_score = real_of_int (Math_round (score * 100)) / 100,
                  metrics = \<lparr> success_rate = real_of_int (Math_round (successRate * 100)) / 100,
                     m_avg_rating = real_of_int (Math_round (avgRating * 100)) / 100,
                     m_avg_latency_ms = real_of_int (Math_round avgLatency),
                     total_feedbacks = calls_total stats,
                     fraud_detected = (if total fraudStats > 0
                        then real_of_int (Math_round (real (total fraudStats) * fraudPercentage / 100))
                        else 0),
                     fraud_percentage = real_of_int (Math_round (fraudPercentage * 10)) / 10,
                     self_rating_percentage =
                        real_of_int (Math_round (selfRatingPercentage fraudStats * 10)) / 10 \<rparr>,
                  warnings = fst wr, quarantine_risk = snd wr,
                  h_quarantine_reason = quarantine_reason agent,
                  h_quarantine_at = quarantine_at agent \<rparr>)))"

text \<open>The three status writes; each is a no-op outside production.\<close>

definition quarantineAgent :: "bool \<Rightarrow> int \<Rightarrow> db \<Rightarrow> string \<Rightarrow> Reason \<Rightarrow> db" where
  "quarantineAgent production now d agentId reason =
    (if \<not> production then d
     else d\<lparr>agents := map (\<lambda>a. if ident a = agentId
                 then a\<lparr>status := Some Quarantine, quarantine_reason := Some reason,
                        quarantine_at := Some now\<rparr>
                 else a) (agents d)\<rparr>)"

definition reactivateAgent :: "bool \<Rightarrow> db \<Rightarrow> string \<Rightarrow> db" where
  "reactivateAgent production d agentId =
    (if \<not> production then d
     else d\<lparr>agents := map (\<lambda>a. if ident a = agentId
                 then a\<lparr>status := Some Active, quarantine_reason := None\<rparr>
                 else a) (agents d)\<rparr>)"

definition banAgent :: "bool \<Rightarrow> int \<Rightarrow> db \<Rightarrow> string \<Rightarrow> Reason \<Rightarrow> db" where
  "banAgent production now d agentId reason =
    (if \<not> production then d
     else d\<lparr>agents := map (\<lambda>a. if ident a = agentId
                 then a\<lparr>status := Some Banned, quarantine_reason := Some reason,
                        quarantine_at := Some now\<rparr>
                 else a) (agents d)\<rparr>)"

record ReviewCounts =
  quarantined :: nat
  reactivated :: nat
  banned :: nat

text \<open>
  One iteration of the loop of \<^verbatim>\<open>autoReviewAgents\<close>: \<open>agent\<close> is the row of the snapshot
  read by \<^verbatim>\<open>findAll\<close> before the loop, \<open>d\<close> the database as the earlier iterations left it.
  The branches of the source each end in one status write and one counter increment, or in
  nothing (\<^verbatim>\<open>continue\<close>, or no branch taken); \<open>Action\<close> names the four endings, the
  \<open>review\<close> functions follow the conditionals to one of them, and \<open>perform\<close> does the
  write and the increment.
\<close>

datatype Action = NoAction | DoQuarantine Reason | DoBan Reason | DoReactivate

definition reviewActive :: "db \<Rightarrow> Agent \<Rightarrow> AgentHealthMetrics \<Rightarrow> Action" where
  "reviewActive d agent health =
    (if quarantine_risk health = high \<or> quarantine_risk health = critical then
       (case findByAgentId d (ident agent) of
          None \<Rightarrow> NoAction
        | Some stats \<Rightarrow>
           (let successRate = (if calls_total stats > 0
                               then real_of_int (calls_success stats) / real_of_int (calls_total stats)
                               else 1);
                avgRating = number_or (avg_rating stats) 1;
                avgLatency = number_or (avg_latency_ms stats) 0
            in if calls_total stats \<ge> 20 \<and> successRate < 0.40 then
                 DoQuarantine (Success_rate_below_40 successRate)
               else if calls_total stats \<ge> 15 \<and> avgRating < 0.3 then
                 DoQuarantine (Average_rating_below_03 avgRating)
               else if calls_total stats \<ge> 10 \<and> avgLatency > 30000 then
                 DoQuarantine (Latency_above_30s avgLatency)
               else if fraud_percentage (metrics health) > 50 then
                 DoQuarantine (Fraud_above_50 (fraud_percentage (metrics health)))
               else NoAction))
     else NoAction)"

definition reviewQuarantine :: "db \<Rightarrow> Agent \<Rightarrow> AgentHealthMetrics \<Rightarrow> Action" where
  "reviewQuarantine d agent health =
    (case findByAgentId d (ident agent) of
       None \<Rightarrow> NoAction
     | Some stats \<Rightarrow>
        (let successRate = (if calls_total stats > 0
                            then real_of_int (calls_success stats) / real_of_int (calls_total stats)
                            else 0);
             avgRating = number_or (avg_rating stats) 0
         in if (calls_total stats \<ge> 40 \<and> successRate < 0.20)
               \<or> (calls_total stats \<ge> 30 \<and> avgRating < 0.15)
               \<or> fraud_percentage (metrics health) > 70
               \<or> self_rating_percentage (metrics health) > 80
            then
              DoBan
                 (if calls_total stats \<ge> 40 \<and> successRate < 0.20
                    then Threshold_2_success_rate_below_20 successRate
                  else if calls_total stats \<ge> 30 \<and> avgRating < 0.15
                    then Threshold_2_rating_below_015 avgRating
                  else if fraud_percentage (metrics health) > 70
                    then Threshold_2_fraud_above_70 (fraud_percentage (metrics health))
                  else if self_rating_percentage (metrics health) > 80
                    then Threshold_2_self_rating_above_80 (self_rating_percentage (metrics health))
                  else Threshold_2_reached)
            else if successRate \<ge> 0.45 \<and> avgRating \<ge> 0.35
                    \<and> fraud_percentage (metrics health) < 40 then
              DoReactivate
            else NoAction))"

definition reviewAction :: "bool \<Rightarrow> db \<Rightarrow> Agent \<Rightarrow> Action" where
  "reviewAction production d agent =
    (case checkAgentHealth production d (ident agent) of
       None \<Rightarrow> NoAction
     | Some health \<Rightarrow>
        (let currentStatus = agentStatus agent in
         if currentStatus = Active then reviewActive d agent health
         else if currentStatus = Quarantine then reviewQuarantine d agent health
         else NoAction))"

definition perform :: "bool \<Rightarrow> int \<Rightarrow> string \<Rightarrow> Action \<Rightarrow> db \<times> ReviewCounts \<Rightarrow> db \<times> ReviewCounts" where
  "perform production now agentId act s =
    (case act of
       NoAction \<Rightarrow> s
     | DoQuarantine reason \<Rightarrow>
         (quarantineAgent production now (fst s) agentId reason,
          (snd s)\<lparr>quarantined := quarantined (snd s) + 1\<rparr>)
     | DoBan reason \<Rightarrow>
         (banAgent production now (fst s) agentId reason,
          (snd s)\<lparr>banned := banned (snd s) + 1\<rparr>)
     | DoReactivate \<Rightarrow>
         (reactivateAgent production (fst s) agentId,
          (snd s)\<lparr>reactivated := reactivated (snd s) + 1\<rparr>))"

definition reviewAgent :: "bool \<Rightarrow> int \<Rightarrow> Agent \<Rightarrow> db \<times> ReviewCounts \<Rightarrow> db \<times> ReviewCounts" where
  "reviewAgent production now agent s =
     perform production now (ident agent) (reviewAction production (fst s) agent) s"

definition noCounts :: ReviewCounts where
  "noCounts = \<lparr>quarantined = 0, reactivated = 0, banned = 0\<rparr>"

definition autoReviewAgents :: "bool \<Rightarrow> int \<Rightarrow> db \<Rightarrow> db \<times> ReviewCounts" where
  "autoReviewAgents production now d =
    (if \<not> production then (d, noCounts)
     else fold (reviewAgent production now) (findAll d) (d, noCounts))"

subsection \<open>Notions used to state and prove the properties of the review\<close>

text \<open>
  What the review of an agent reads besides the agent's own status: the statistics, the
  feedback and fraud tables, and the ids and owners of the agent rows. The status writes
  leave all of it unchanged.
\<close>

definition sameReviewData :: "db \<Rightarrow> db \<Rightarrow> bool" where
  "sameReviewData d d' =
    (agent_stats d' = agent_stats d \<and> agent_feedbacks d' = agent_feedbacks d
     \<and> fraud_detection_log d' = fraud_detection_log d
     \<and> list_all2 (\<lambda>a b. ident a = ident b \<and> caller_id a = caller_id b) (agents d) (agents d'))"

text \<open>The row rewrite that \<open>perform\<close> applies to the rows of the reviewed agent.\<close>

definition rewrite :: "int \<Rightarrow> Action \<Rightarrow> Agent \<Rightarrow> Agent" where
  "rewrite now act a =
    (case act of
       NoAction \<Rightarrow> a
     | DoQuarantine reason \<Rightarrow>
         a\<lparr>status := Some Quarantine, quarantine_reason := Some reason, quarantine_at := Some now\<rparr>
     | DoBan reason \<Rightarrow>
         a\<lparr>status := Some Banned, quarantine_reason := Some reason, quarantine_at := Some now\<rparr>
     | DoReactivate \<Rightarrow> a\<lparr>status := Some Active, quarantine_reason := None\<rparr>)"

section \<open>Strings\<close>

text \<open>
  The string operations of the search engine on code points below 256:
  \<^verbatim>\<open>toLowerCase\<close>, \<^verbatim>\<open>split\<close> on a character class, \<^verbatim>\<open>split\<close> on runs of a class (a regular
  expression ending in \<^verbatim>\<open>+\<close>), \<^verbatim>\<open>includes\<close> (\<open>str_includes\<close>), and sets of strings as duplicate-free lists
  in insertion order.
\<close>

definition lower_char :: "char \<Rightarrow> char" where
  "lower_char c =
    (let n = (of_char c :: nat)
     in if (65 \<le> n \<and> n \<le> 90) \<or> (192 \<le> n \<and> n \<le> 222 \<and> n \<noteq> 215) then char_of (n + 32) else c)"

definition toLowerCase :: "string \<Rightarrow> string" where
  "toLowerCase s = map lower_char s"

fun split_on :: "(char \<Rightarrow> bool) \<Rightarrow> string \<Rightarrow> string list" where
  "split_on p [] = [[]]"
| "split_on p (c # cs) =
     (if p c then [] # split_on p cs
      else (case split_on p cs of [] \<Rightarrow> [[c]] | w # ws \<Rightarrow> (c # w) # ws))"

function split_runs :: "(char \<Rightarrow> bool) \<Rightarrow> string \<Rightarrow> string list" where
  "split_runs p [] = [[]]"
| "split_runs p (c # cs) =
     (if p c then [] # split_runs p (dropWhile p cs)
      else (case split_runs p cs of [] \<Rightarrow> [[c]] | w # ws \<Rightarrow> (c # w) # ws))"
  by pat_completeness auto
termination
  by (relation "measure (\<lambda>(p, s). length s)") (auto simp: length_dropWhile_le less_Suc_eq_le)

fun startsWith :: "string \<Rightarrow> string \<Rightarrow> bool" where
  "startsWith s [] = True"
| "startsWith [] (t # ts) = False"
| "startsWith (c # cs) (t # ts) = (c = t \<and> startsWith cs ts)"

fun str_includes :: "string \<Rightarrow> string \<Rightarrow> bool" where
  "str_includes [] t = (t = [])"
| "str_includes (c # cs) t = (startsWith (c # cs) t \<or> str_includes cs t)"

definition uniq :: "'a list \<Rightarrow> 'a list" where
  "uniq xs = rev (remdups (rev xs))"

definition nth_opt :: "'a list \<Rightarrow> nat \<Rightarrow> 'a option" where
  "nth_opt xs i = (if i < length xs then Some (xs ! i) else None)"

text \<open>\<^verbatim>\<open>xs.slice(0, n)\<close>: a negative \<open>n\<close> counts from the end.\<close>

definition slice0 :: "'a list \<Rightarrow> int \<Rightarrow> 'a list" where
  "slice0 xs n = (if n < 0 then take (nat (int (length xs) + n)) xs else take (nat n) xs)"

definition is_space :: "char \<Rightarrow> bool" where
  "is_space c = (c \<in> set [CHR 0x09, CHR 0x0A, CHR 0x0B, CHR 0x0C, CHR 0x0D, CHR 0x20, CHR 0xA0])"

text \<open>\<^verbatim>\<open>String.prototype.trim\<close>.\<close>

definition trim :: "string \<Rightarrow> string" where
  "trim s = rev (dropWhile is_space (rev (dropWhile is_space s)))"

text \<open>The class of the tokenizer: ASCII letters and digits, and the code points from \<open>0xC0\<close> on.\<close>

definition is_word_char :: "char \<Rightarrow> bool" where
  "is_word_char c =
    (let n = (of_char c :: nat)
     in (97 \<le> n \<and> n \<le> 122) \<or> (65 \<le> n \<and> n \<le> 90) \<or> (48 \<le> n \<and> n \<le> 57) \<or> 192 \<le> n)"

section \<open>Ranking and search engine\<close>

datatype Intent = IntentOne string | IntentMany "string list"

record SearchAgentRequest =
  search_intent :: "Intent option"
  search_categories :: "string list option"
  search_tags :: "string list option"
  search_location :: "string option"
  search_language :: "string option"
  search_description :: "string option"
  search_limit :: "int option"

record SearchAgentResponse =
  res_id :: string
  res_name :: string
  res_caller_id :: "string option"
  res_endpoint :: string
  res_description :: string
  res_tags :: "string list"
  res_intents :: "string list"
  res_tasks :: "string list"
  res_categories :: "string list"
  res_location_scope :: string
  res_score :: real
  res_input_schema :: "string option"

record AgentWithScore =
  ws_agent :: Agent
  ws_stats :: "AgentStats option"
  ws_score :: real

text \<open>\<^verbatim>\<open>!intent\<close>: \<^verbatim>\<open>undefined\<close> and the empty string are falsy, an array (also empty) is not.\<close>

definition intentFalsy :: "Intent option \<Rightarrow> bool" where
  "intentFalsy i = (case i of None \<Rightarrow> True | Some (IntentOne s) \<Rightarrow> s = [] | Some (IntentMany xs) \<Rightarrow> False)"

subsection \<open>Scores\<close>

definition tokenize :: "string \<Rightarrow> string list" where
  "tokenize text = uniq (filter (\<lambda>t. length t \<ge> 3)
                     (split_runs (\<lambda>c. \<not> is_word_char c) (toLowerCase text)))"

definition calculateDescriptionScore :: "Agent \<Rightarrow> string option \<Rightarrow> real" where
  "calculateDescriptionScore a requestDescription =
    (case requestDescription of
       None \<Rightarrow> 0.5
     | Some rd \<Rightarrow>
        if rd = [] \<or> trim rd = [] then 0.5
        else let tokens = tokenize rd in
          if length tokens = 0 then 0.0
          else let agentTokens = uniq (tokenize (description a)
                                        @ concat (map tokenize (tags a))
                                        @ concat (map tokenize (categories a)));
                   overlap = length (filter (\<lambda>t. t \<in> set agentTokens) tokens)
               in if overlap = 0 then 0.0
                  else let norm = min (length tokens) 10
                       in min 1 (real overlap / real norm))"

definition calculateHierarchicalScore :: "string list \<Rightarrow> string \<Rightarrow> real" where
  "calculateHierarchicalScore agentIntents searchIntent =
    (if searchIntent \<in> set agentIntents then 1.0
     else let searchParts = split_on (\<lambda>c. c = CHR ''.'') searchIntent
          in foldl (\<lambda>bestScore agentIntent.
                 let agentParts = split_on (\<lambda>c. c = CHR ''.'') agentIntent;
                     b1 = (if nth_opt searchParts 0 = nth_opt agentParts 0
                              \<and> nth_opt searchParts 1 = nth_opt agentParts 1
                           then max bestScore 0.6 else bestScore)
                 in (if nth_opt searchParts 0 = nth_opt agentParts 0
                     then max b1 0.3 else b1))
               0.0 agentIntents)"

definition getTrigrams :: "string \<Rightarrow> string list" where
  "getTrigrams str =
    (let padded = ''  '' @ str @ '' ''
     in uniq (map (\<lambda>i. take 3 (drop i padded)) [0 ..< length padded - 2]))"

definition trigramSimilarity :: "string list \<Rightarrow> string list \<Rightarrow> real" where
  "trigramSimilarity set1 set2 =
    (let intersection = filter (\<lambda>x. x \<in> set set2) set1;
         union = uniq (set1 @ set2)
     in if length union > 0 then real (length intersection) / real (length union) else 0.0)"

definition is_intent_separator :: "char \<Rightarrow> bool" where
  "is_intent_separator c = (c = CHR ''.'' \<or> is_space c \<or> c = CHR ''_'' \<or> c = CHR ''-'')"

definition calculateStringSimilarity :: "string \<Rightarrow> string \<Rightarrow> real" where
  "calculateStringSimilarity str1 str2 =
    (let tokens1 = filter (\<lambda>t. length t > 2) (split_runs is_intent_separator (toLowerCase str1));
         tokens2 = filter (\<lambda>t. length t > 2) (split_runs is_intent_separator (toLowerCase str2))
     in if length tokens1 = 0 \<or> length tokens2 = 0 then 0.0
        else let set1 = uniq tokens1;
                 set2 = uniq tokens2;
                 intersection = filter (\<lambda>x. x \<in> set set2) set1;
                 union = uniq (set1 @ set2);
                 jaccardScore = (if length union > 0
                                 then real (length intersection) / real (length union) else 0);
                 trigramBonus =
                   foldl (\<lambda>bonus t1.
                      foldl (\<lambda>bonus t2.
                         if t1 \<noteq> t2
                         then max bonus (trigramSimilarity (getTrigrams t1) (getTrigrams t2) * 0.3)
                         else bonus) bonus tokens2) 0.0 tokens1
             in min (jaccardScore + trigramBonus) 1.0)"

definition calculateTrigramScore :: "string list \<Rightarrow> string \<Rightarrow> real" where
  "calculateTrigramScore agentIntents searchIntent =
    (if searchIntent = [] \<or> length agentIntents = 0 then 0.0
     else let maxSimilarity =
                foldl (\<lambda>m agentIntent. max m (calculateStringSimilarity searchIntent agentIntent))
                  0.0 agentIntents
          in min maxSimilarity 1.0)"

definition calculateIntentScore :: "string list \<Rightarrow> Intent option \<Rightarrow> real" where
  "calculateIntentScore agentIntents searchIntent =
    (if intentFalsy searchIntent then 0.5
     else let searchIntents = (case searchIntent of
                                 Some (IntentMany xs) \<Rightarrow> xs
                               | Some (IntentOne x) \<Rightarrow> [x]
                               | None \<Rightarrow> [])
          in foldl (\<lambda>bestScore singleIntent.
                 let hierarchicalScore = calculateHierarchicalScore agentIntents singleIntent;
                     trigramScore = calculateTrigramScore agentIntents singleIntent;
                     intentScore = max hierarchicalScore (trigramScore * 0.85)
                 in max bestScore intentScore) 0.0 searchIntents)"

definition calculateGeoScore :: "string \<Rightarrow> string option \<Rightarrow> real" where
  "calculateGeoScore agentLocation searchLocation =
    (case (if falsy searchLocation \<or> agentLocation = [] then None else searchLocation) of
       None \<Rightarrow> (if agentLocation = ''Global'' then 0.3 else 0.5)
     | Some location \<Rightarrow>
       if agentLocation = ''Global'' then 0.3
       else
        let searchVariants = filter (\<lambda>p. p \<noteq> [])
              (map (\<lambda>p. toLowerCase (trim p))
                 (split_on (\<lambda>c. c = CHR '','' \<or> c = CHR ''/'') location));
            agentParts = filter (\<lambda>p. p \<noteq> [])
              (map (\<lambda>p. toLowerCase (trim p))
                 (split_on (\<lambda>c. c = CHR '','' \<or> c = CHR ''/'') agentLocation))
        in if length searchVariants = 0 \<or> length agentParts = 0 then 0.2
           else
            let agentCity = nth_opt agentParts 0;
                agentState = nth_opt agentParts 1;
                agentCountry = last agentParts
            in foldl (\<lambda>best variant.
                  if Some variant = agentCity then max best 1.0
                  else if (case agentState of
                             None \<Rightarrow> False
                           | Some st \<Rightarrow> variant = st \<or> str_includes st variant
                                         \<or> str_includes variant st)
                    then max best 0.6
                  else if variant = agentCountry \<or> str_includes agentCountry variant
                          \<or> str_includes variant agentCountry
                    then max best 0.3
                  else best) 0.2 searchVariants)"

definition calculateListSimilarity :: "string list \<Rightarrow> string list option \<Rightarrow> real" where
  "calculateListSimilarity agentList searchList =
    (case searchList of
       None \<Rightarrow> 1.0
     | Some sl \<Rightarrow>
        if length sl = 0 then 1.0
        else if length agentList = 0 then 0.0
        else let agentTokens = concat (map tokenize agentList);
                 searchTokens = concat (map tokenize sl)
             in if length searchTokens = 0 then 0.5
                else let matches = length (filter (\<lambda>searchToken.
                           \<exists>agentToken \<in> set agentTokens.
                              agentToken = searchToken \<or> str_includes agentToken searchToken
                              \<or> str_includes searchToken agentToken) searchTokens)
                     in real matches / real (length searchTokens))"

definition calculateCategoryScore :: "string list \<Rightarrow> string list option \<Rightarrow> real" where
  "calculateCategoryScore agentCategories searchCategories =
     calculateListSimilarity agentCategories searchCategories"

definition calculateTagScore :: "string list \<Rightarrow> string list \<Rightarrow> real" where
  "calculateTagScore agentTags searchTags = calculateListSimilarity agentTags (Some searchTags)"

definition calculateLatencyScore :: "real \<Rightarrow> real" where
  "calculateLatencyScore avgLatencyMs =
    (if avgLatencyMs \<le> 500 then 1.0
     else if avgLatencyMs \<le> 1500 then 0.7
     else if avgLatencyMs \<le> 3000 then 0.4
     else 0.2)"

definition calculateScore :: "bool \<Rightarrow> db \<Rightarrow> AgentWithScore \<Rightarrow> SearchAgentRequest \<Rightarrow> AgentWithScore" where
  "calculateScore production d a request =
    (let intentScore = calculateIntentScore (intents (ws_agent a)) (search_intent request);
         descriptionScore = calculateDescriptionScore (ws_agent a) (search_description request);
         geoScore = calculateGeoScore (location_scope (ws_agent a)) (search_location request);
         categoryScore = calculateCategoryScore (categories (ws_agent a)) (search_categories request);
         tagScore = calculateTagScore (tags (ws_agent a))
                      (case search_tags request of None \<Rightarrow> [] | Some ts \<Rightarrow> ts);
         hasStats = (case ws_stats a of None \<Rightarrow> False | Some st \<Rightarrow> calls_total st > 0);
         successRate = (case ws_stats a of
                          None \<Rightarrow> 0
                        | Some st \<Rightarrow> if calls_total st > 0
                            then real_of_int (calls_success st) / real_of_int (calls_total st) else 0);
         ratingScore = (case ws_stats a of
                          None \<Rightarrow> 0
                        | Some st \<Rightarrow> if calls_total st > 0 then avg_rating st else 0);
         latencyScore = (case ws_stats a of
                          None \<Rightarrow> 0
                        | Some st \<Rightarrow> if calls_total st > 0
                            then calculateLatencyScore (avg_latency_ms st) else 0);
         fraudPercentage = calculateFraudPercentage production d (ident (ws_agent a));
         fraudScore = 1.0 - (fraudPercentage / 100);
         finalScore = intentScore * 0.25 + descriptionScore * 0.10 + categoryScore * 0.10
                    + geoScore * 0.20 + successRate * 0.14 + ratingScore * 0.09
                    + tagScore * 0.07 + latencyScore * 0.03 + fraudScore * 0.04;
         finalScore' = (if status (ws_agent a) = Some Quarantine then max 0 (finalScore - 0.3)
                        else finalScore)
     in a\<lparr>ws_score := finalScore'\<rparr>)"

subsection \<open>Agent repository queries\<close>

text \<open>
  \<^verbatim>\<open>AgentRepository.search\<close> builds a \<^verbatim>\<open>WHERE\<close> clause from the filters that are truthy:
  \<^verbatim>\<open>intents && $n\<close> (an array intent) or \<^verbatim>\<open>$n = ANY(intents)\<close> (a string intent),
  \<^verbatim>\<open>categories && $n\<close>, \<^verbatim>\<open>$n = ANY(languages)\<close>.
\<close>

definition overlap :: "string list \<Rightarrow> string list \<Rightarrow> bool" where
  "overlap xs ys = (\<exists>x \<in> set xs. x \<in> set ys)"

definition searchAgents :: "db \<Rightarrow> Intent option \<Rightarrow> string list option \<Rightarrow> string option \<Rightarrow> Agent list" where
  "searchAgents d intent cats language =
    filter (\<lambda>a.
        (if intentFalsy intent then True
         else (case intent of
                 Some (IntentMany xs) \<Rightarrow> overlap (intents a) xs
               | Some (IntentOne x) \<Rightarrow> x \<in> set (intents a)
               | None \<Rightarrow> True))
      \<and> (case cats of None \<Rightarrow> True
          | Some cs \<Rightarrow> if length cs > 0 then overlap (categories a) cs else True)
      \<and> (if falsy language then True
         else (case language of Some l \<Rightarrow> l \<in> set (languages a) | None \<Rightarrow> True)))
      (agents d)"

fun joinWith :: "string \<Rightarrow> string list \<Rightarrow> string" where
  "joinWith sep [] = []"
| "joinWith sep [x] = x"
| "joinWith sep (x # y # ys) = x @ sep @ joinWith sep (y # ys)"

text \<open>
  The fuzzy query. \<open>similarity\<close> is the trigram similarity of the database extension
  \<^verbatim>\<open>pg_trgm\<close>, a parameter of the model. A missing intent is an SQL \<^verbatim>\<open>NULL\<close> (no row
  qualifies); a negative \<^verbatim>\<open>LIMIT\<close> makes the query fail.
\<close>

definition searchByIntentFuzzy ::
    "(string \<Rightarrow> string \<Rightarrow> real) \<Rightarrow> db \<Rightarrow> string option \<Rightarrow> int \<Rightarrow> Error + Agent list" where
  "searchByIntentFuzzy similarity d intent limit =
    (if limit < 0 then Inl Database_error
     else case intent of
            None \<Rightarrow> Inr []
          | Some i \<Rightarrow>
             Inr (take (nat limit)
                   (sort_key (\<lambda>a. - similarity (joinWith '','' (intents a)) i)
                      (filter (\<lambda>a. similarity (joinWith '','' (intents a)) i \<ge> 0.2) (agents d)))))"

subsection \<open>Search service\<close>

definition normalizeLocation :: "string option \<Rightarrow> string option" where
  "normalizeLocation location =
    (case location of
       None \<Rightarrow> None
     | Some l \<Rightarrow>
        if l = [] then None
        else let lower = toLowerCase l
             in if lower = ''null'' \<or> lower = ''undefined'' \<or> lower = ''none'' \<or> lower = ''n/a''
                then None else Some l)"

definition validateSearchRequest :: "SearchAgentRequest \<Rightarrow> Error option" where
  "validateSearchRequest request =
    (case search_categories request of
       None \<Rightarrow> Some Categories_required
     | Some cs \<Rightarrow> if length cs = 0 then Some Categories_required else None)"

text \<open>\<^verbatim>\<open>request.limit || n\<close>: a missing limit and the limit 0 are replaced by \<open>n\<close>.\<close>

definition limit_or :: "int option \<Rightarrow> int \<Rightarrow> int" where
  "limit_or l n = (case l of None \<Rightarrow> n | Some k \<Rightarrow> if k = 0 then n else k)"

text \<open>The four queries that fetch the candidates, each one tried when the ones before are empty.\<close>

definition fetchAgents ::
    "(string \<Rightarrow> string \<Rightarrow> real) \<Rightarrow> db \<Rightarrow> SearchAgentRequest \<Rightarrow> Error + Agent list" where
  "fetchAgents similarity d request =
    (let agents1 = searchAgents d (search_intent request) (search_categories request)
                     (search_language request);
         agents2 = (if length agents1 = 0 \<and> \<not> intentFalsy (search_intent request)
                    then searchAgents d (search_intent request) None (search_language request)
                    else agents1)
     in if length agents2 = 0 \<and> \<not> intentFalsy (search_intent request) then
          (let intentForFuzzy = (case search_intent request of
                                   Some (IntentMany xs) \<Rightarrow> nth_opt xs 0
                                 | Some (IntentOne x) \<Rightarrow> Some x
                                 | None \<Rightarrow> None)
           in case searchByIntentFuzzy similarity d intentForFuzzy
                     (limit_or (search_limit request) 50) of
                Inl e \<Rightarrow> Inl e
              | Inr fuzzy \<Rightarrow> Inr (if length fuzzy = 0 then findAll d else fuzzy))
        else Inr (if length agents2 = 0 then findAll d else agents2))"

text \<open>
  From the fetched agents to the ranked ones: drop the banned, load the statistics, score
  (against the request as it came in), filter by score and geography (against the
  normalised location), sort by descending score (a stable sort) and cut at the limit.
\<close>

definition rankAgents :: "bool \<Rightarrow> db \<Rightarrow> SearchAgentRequest \<Rightarrow> Agent list \<Rightarrow> AgentWithScore list" where
  "rankAgents production d request fetched =
    (let normalizedLocation = normalizeLocation (search_location request);
         activeAgents = filter (\<lambda>a. status a \<noteq> Some Banned) fetched;
         agentsWithStats = map (\<lambda>a. \<lparr> ws_agent = a, ws_stats = findByAgentId d (ident a),
                                      ws_score = 0 \<rparr>) activeAgents;
         agentsWithScores = map (\<lambda>a. calculateScore production d a request) agentsWithStats;
         filteredAgents = filter (\<lambda>a.
             let hasMinScore = (ws_score a \<ge> 0.4);
                 hasMinGeo = (falsy normalizedLocation
                              \<or> location_scope (ws_agent a) = ''Global''
                              \<or> calculateGeoScore (location_scope (ws_agent a)) normalizedLocation \<ge> 0.3)
             in hasMinScore \<and> hasMinGeo) agentsWithScores
     in if length filteredAgents = 0 then []
        else let limit = min (limit_or (search_limit request) 10) 10
             in slice0 (sort_key (\<lambda>a. - ws_score a) filteredAgents) limit)"

text \<open>
  The score of an item is the score rounded to two decimals. The model rounds the exact
  real sum; the source rounds a sum of doubles, which can fall on the other side of a
  half (an exact 0.435 is 0.43499999999999994 as a double sum and rounds to 0.43), so no
  property below depends on the last digit of a rounded score.
\<close>

definition toResponse :: "AgentWithScore \<Rightarrow> SearchAgentResponse" where
  "toResponse a =
    \<lparr> res_id = ident (ws_agent a), res_name = name (ws_agent a),
      res_caller_id = caller_id (ws_agent a), res_endpoint = endpoint (ws_agent a),
      res_description = description (ws_agent a), res_tags = tags (ws_agent a),
      res_intents = intents (ws_agent a), res_tasks = tasks (ws_agent a),
      res_categories = categories (ws_agent a), res_location_scope = location_scope (ws_agent a),
      res_score = real_of_int (Math_round (ws_score a * 100)) / 100,
      res_input_schema = input_schema (ws_agent a) \<rparr>"

definition search ::
    "bool \<Rightarrow> (string \<Rightarrow> string \<Rightarrow> real) \<Rightarrow> db \<Rightarrow> SearchAgentRequest
       \<Rightarrow> Error + SearchAgentResponse list" where
  "search production similarity d request =
    (case validateSearchRequest request of
       Some e \<Rightarrow> Inl e
     | None \<Rightarrow>
        (case fetchAgents similarity d request of
           Inl e \<Rightarrow> Inl e
         | Inr fetched \<Rightarrow>
            if length fetched = 0 then Inr []
            else Inr (map toResponse (rankAgents production d request fetched))))"

subsection \<open>Execution keys and the search route\<close>

text \<open>
  An execution key is a signed token. The model keeps what was signed, the secret it was
  signed with and the lifetime given to the signer; \<open>keyId\<close> stands for the 16 random
  bytes, \<open>JWT_SECRET\<close> for the master secret of the registry, and \<open>decryptSecret\<close> for
  the AES decryption of a stored provider secret (\<open>None\<close> when it throws).
\<close>

record ExecutionKey =
  consumer_caller_id :: string
  key_agent_id :: string
  key_id :: string
  signed_with :: string
  expiresIn :: int

definition EXECUTION_KEY_EXPIRATION :: int where
  "EXECUTION_KEY_EXPIRATION = 300"

definition generateExecutionKey ::
    "string \<Rightarrow> int \<Rightarrow> string \<Rightarrow> string \<Rightarrow> string \<Rightarrow> string option \<Rightarrow> ExecutionKey \<times> int" where
  "generateExecutionKey JWT_SECRET now keyId consumerCallerId agentId executionSecret =
    (let expiresAt = now + EXECUTION_KEY_EXPIRATION * 1000;
         secret = (case executionSecret of
                     None \<Rightarrow> JWT_SECRET
                   | Some s \<Rightarrow> if s = [] then JWT_SECRET else s)
     in (\<lparr> consumer_caller_id = consumerCallerId, key_agent_id = agentId, key_id = keyId,
           signed_with = secret, expiresIn = EXECUTION_KEY_EXPIRATION \<rparr>, expiresAt))"

definition getProviderSecret :: "(string \<Rightarrow> string option) \<Rightarrow> db \<Rightarrow> string \<Rightarrow> string option" where
  "getProviderSecret decryptSecret d callerId =
    (case find (\<lambda>c. c_caller_id c = callerId) (callers d) of
       None \<Rightarrow> None
     | Some row \<Rightarrow>
        if c_type row \<noteq> Provider \<or> falsy (jwt_token row) then None
        else (case jwt_token row of None \<Rightarrow> None | Some t \<Rightarrow> decryptSecret t))"

record SearchResult =
  item :: SearchAgentResponse
  execution_key :: ExecutionKey
  key_expires_at :: int

text \<open>The handler of \<^verbatim>\<open>POST /search\<close>, after the caller has been authenticated as a consumer.\<close>

definition withKey ::
    "(string \<Rightarrow> string option) \<Rightarrow> string \<Rightarrow> int \<Rightarrow> db \<Rightarrow> string \<Rightarrow> string \<Rightarrow> SearchAgentResponse
       \<Rightarrow> SearchResult" where
  "withKey decryptSecret JWT_SECRET now d callerId keyId a =
    (let providerSecret = (if falsy (res_caller_id a) then None
                           else (case res_caller_id a of
                                   None \<Rightarrow> None
                                 | Some c \<Rightarrow> getProviderSecret decryptSecret d c));
         k = generateExecutionKey JWT_SECRET now keyId callerId (res_id a) providerSecret
     in \<lparr> item = a, execution_key = fst k, key_expires_at = snd k \<rparr>)"

definition searchRoute ::
    "bool \<Rightarrow> (string \<Rightarrow> string \<Rightarrow> real) \<Rightarrow> (string \<Rightarrow> string option) \<Rightarrow> string \<Rightarrow> (nat \<Rightarrow> string)
       \<Rightarrow> int \<Rightarrow> db \<Rightarrow> string \<Rightarrow> SearchAgentRequest \<Rightarrow> Error + SearchResult list" where
  "searchRoute production similarity decryptSecret JWT_SECRET keyIds now d callerId request =
    (case search production similarity d request of
       Inl e \<Rightarrow> Inl e
     | Inr found \<Rightarrow>
        Inr (map (\<lambda>(i, a). withKey decryptSecret JWT_SECRET now d callerId (keyIds i) a)
               (enumerate 0 found)))"

section \<open>Feedback and anti-fraud pipeline\<close>

subsection \<open>Feedback repository\<close>

definition countByConsumerAndAgent :: "db \<Rightarrow> string \<Rightarrow> string \<Rightarrow> nat" where
  "countByConsumerAndAgent d consumerId agentId =
    length (filter (\<lambda>f. consumer_id f = consumerId \<and> fb_agent_id f = agentId) (agent_feedbacks d))"

definition countRecentByConsumerAndAgent :: "int \<Rightarrow> db \<Rightarrow> string \<Rightarrow> string \<Rightarrow> int \<Rightarrow> nat" where
  "countRecentByConsumerAndAgent now d consumerId agentId hours =
    length (filter (\<lambda>f. consumer_id f = consumerId \<and> fb_agent_id f = agentId
                         \<and> created_at f > now - hours * 3600000) (agent_feedbacks d))"

definition countRecentByConsumer :: "int \<Rightarrow> db \<Rightarrow> string \<Rightarrow> int \<Rightarrow> nat" where
  "countRecentByConsumer now d consumerId minutes =
    length (filter (\<lambda>f. consumer_id f = consumerId \<and> created_at f > now - minutes * 60000)
              (agent_feedbacks d))"

record RatingPatternStats =
  rp_total :: nat
  extremeRatings :: nat
  extremePercentage :: real

definition getRatingPatternStats :: "db \<Rightarrow> string \<Rightarrow> RatingPatternStats" where
  "getRatingPatternStats d agentId =
    (let tot = length (filter (\<lambda>f. fb_agent_id f = agentId) (agent_feedbacks d));
         extreme = length (filter (\<lambda>f. fb_agent_id f = agentId \<and> (rating f = 0 \<or> rating f = 1))
                             (agent_feedbacks d))
     in \<lparr> rp_total = tot, extremeRatings = extreme,
          extremePercentage = (if tot > 0 then (real extreme / real tot) * 100 else 0) \<rparr>)"

definition createFeedback :: "int \<Rightarrow> db \<Rightarrow> string \<Rightarrow> string \<Rightarrow> bool \<Rightarrow> real \<Rightarrow> real \<Rightarrow> db" where
  "createFeedback now d agentId consumerId succ latencyMs rat =
    d\<lparr>agent_feedbacks := agent_feedbacks d @
        [\<lparr> fb_agent_id = agentId, consumer_id = consumerId, success = succ,
           latency_ms = latencyMs, rating = rat, created_at = now \<rparr>]\<rparr>"

definition createFraud :: "int \<Rightarrow> db \<Rightarrow> string \<Rightarrow> string option \<Rightarrow> FraudType \<Rightarrow> FraudSeverity \<Rightarrow> db" where
  "createFraud now d agentId consumerId ftype sev =
    d\<lparr>fraud_detection_log := fraud_detection_log d @
        [\<lparr> fd_agent_id = agentId, fd_consumer_id = consumerId, fraud_type = ftype,
           severity = sev, detected_at = now \<rparr>]\<rparr>"

subsection \<open>Statistics repository\<close>

definition incrementFeedbackWeighted ::
    "int \<Rightarrow> db \<Rightarrow> string \<Rightarrow> bool \<Rightarrow> real \<Rightarrow> real \<Rightarrow> real \<Rightarrow> db" where
  "incrementFeedbackWeighted now d agentId succ latencyMs rat weight =
    (case findByAgentId d agentId of
       None \<Rightarrow>
         d\<lparr>agent_stats := agent_stats d @
            [\<lparr> agent_id = agentId, calls_total = 1, calls_success = (if succ then 1 else 0),
               avg_latency_ms = latencyMs, avg_rating = rat * weight,
               last_feedback_at = Some now \<rparr>]\<rparr>
     | Some existing \<Rightarrow>
        (let newCallsTotal = calls_total existing + 1;
             newCallsSuccess = calls_success existing + (if succ then 1 else 0);
             currentLatency = number_or (avg_latency_ms existing) 0;
             currentRating = number_or (avg_rating existing) 0;
             newAvgLatency = currentLatency + (latencyMs - currentLatency) / real_of_int newCallsTotal;
             weightedRating = rat * weight;
             newAvgRating = currentRating + (weightedRating - currentRating) / real_of_int newCallsTotal
         in d\<lparr>agent_stats := map (\<lambda>s. if agent_id s = agentId
                 then s\<lparr>calls_total := newCallsTotal, calls_success := newCallsSuccess,
                        avg_latency_ms := newAvgLatency, avg_rating := newAvgRating,
                        last_feedback_at := Some now\<rparr>
                 else s) (agent_stats d)\<rparr>))"

subsection \<open>Fraud detection service\<close>

text \<open>
  Each detector returns the database (a detection appends a row to the fraud log) and
  its verdict.
\<close>

definition detectSelfRating :: "bool \<Rightarrow> int \<Rightarrow> db \<Rightarrow> string \<Rightarrow> string \<Rightarrow> db \<times> bool \<times> real" where
  "detectSelfRating production now d consumerId agentId =
    (if \<not> production then (d, False, 1.0)
     else case findById d agentId of
            None \<Rightarrow> (d, False, 1.0)
          | Some agent \<Rightarrow>
             if falsy (caller_id agent) then (d, False, 1.0)
             else if Some consumerId = caller_id agent
               then (createFraud now d agentId (Some consumerId) SELF_RATING HIGH, True, 0.1)
               else (d, False, 1.0))"

definition detectSpam :: "bool \<Rightarrow> int \<Rightarrow> db \<Rightarrow> string \<Rightarrow> string \<Rightarrow> db \<times> bool" where
  "detectSpam production now d consumerId agentId =
    (if \<not> production then (d, False)
     else let recentCount = countRecentByConsumerAndAgent now d consumerId agentId 1
          in if recentCount > 10
             then (createFraud now d agentId (Some consumerId) SPAM HIGH, True)
             else (d, False))"

definition detectRatingPatterns :: "bool \<Rightarrow> int \<Rightarrow> db \<Rightarrow> string \<Rightarrow> db \<times> bool" where
  "detectRatingPatterns production now d agentId =
    (if \<not> production then (d, False)
     else let stats = getRatingPatternStats d agentId
          in if rp_total stats \<ge> 10 \<and> extremePercentage stats > 80
             then (createFraud now d agentId None RATING_PATTERN MEDIUM, True)
             else (d, False))"

definition calculateFeedbackWeight :: "bool \<Rightarrow> db \<Rightarrow> string \<Rightarrow> string \<Rightarrow> real" where
  "calculateFeedbackWeight production d consumerId agentId =
    (if \<not> production then 1.0
     else let count = countByConsumerAndAgent d consumerId agentId
          in if count = 0 then 1.0
             else max 0.1 (1.0 / (1 + ln (1 + real count))))"

record FraudAnalysis =
  totalWeight :: real
  fraudDetected :: bool
  shouldBlock :: bool

definition analyzeFeedback :: "bool \<Rightarrow> int \<Rightarrow> db \<Rightarrow> string \<Rightarrow> string \<Rightarrow> db \<times> FraudAnalysis" where
  "analyzeFeedback production now d consumerId agentId =
    (if \<not> production
     then (d, \<lparr> totalWeight = 1.0, fraudDetected = False, shouldBlock = False \<rparr>)
     else let selfRating = detectSelfRating production now d consumerId agentId;
              spam = detectSpam production now (fst selfRating) consumerId agentId
          in if snd spam
             then (fst spam, \<lparr> totalWeight = 0, fraudDetected = True, shouldBlock = True \<rparr>)
             else let decreasingWeight =
                        calculateFeedbackWeight production (fst spam) consumerId agentId;
                      totalWeight = snd (snd selfRating) * decreasingWeight;
                      patterns = detectRatingPatterns production now (fst spam) agentId
                  in (fst patterns,
                      \<lparr> totalWeight = totalWeight, fraudDetected = fst (snd selfRating),
                        shouldBlock = False \<rparr>))"

subsection \<open>Feedback service\<close>

record FeedbackRequest =
  req_agent_id :: string
  req_success :: bool
  req_latency_ms :: real
  req_rating :: real
  req_consumer_id :: string

definition validateFeedbackRequest :: "FeedbackRequest \<Rightarrow> Error option" where
  "validateFeedbackRequest request =
    (if req_agent_id request = [] \<or> trim (req_agent_id request) = [] then Some Agent_id_required
     else if req_latency_ms request < 0 then Some Latency_must_be_non_negative
     else if req_rating request < 0 \<or> req_rating request > 1 then Some Rating_must_be_between_0_and_1
     else None)"

text \<open>
  \<^verbatim>\<open>submitFeedback\<close> returns the database as the call leaves it, and the error thrown or
  \<open>Inr ()\<close> for \<^verbatim>\<open>{ success: true }\<close>. A blocked submission has already written its fraud
  log rows.
\<close>

definition submitFeedback :: "bool \<Rightarrow> int \<Rightarrow> db \<Rightarrow> FeedbackRequest \<Rightarrow> db \<times> (Error + unit)" where
  "submitFeedback production now d request =
    (case validateFeedbackRequest request of
       Some e \<Rightarrow> (d, Inl e)
     | None \<Rightarrow>
        if countRecentByConsumer now d (req_consumer_id request) 1 \<ge> 60
        then (d, Inl Rate_limit_exceeded)
        else case findById d (req_agent_id request) of
               None \<Rightarrow> (d, Inl Agent_not_found)
             | Some agent \<Rightarrow>
                (let fraudAnalysis =
                       analyzeFeedback production now d (req_consumer_id request) (req_agent_id request)
                 in if shouldBlock (snd fraudAnalysis) then (fst fraudAnalysis, Inl Blocked_spam)
                    else let d1 = createFeedback now (fst fraudAnalysis) (req_agent_id request)
                                    (req_consumer_id request) (req_success request)
                                    (req_latency_ms request) (req_rating request);
                             d2 = incrementFeedbackWeighted now d1 (req_agent_id request)
                                    (req_success request) (req_latency_ms request)
                                    (req_rating request) (totalWeight (snd fraudAnalysis))
                         in (d2, Inr ())))"

text \<open>A sequence of submissions, each at its own time.\<close>

fun submitAll :: "bool \<Rightarrow> db \<Rightarrow> (int \<times> FeedbackRequest) list \<Rightarrow> db" where
  "submitAll production d [] = d"
| "submitAll production d (x # xs) =
     submitAll production (fst (submitFeedback production (fst x) d (snd x))) xs"

text \<open>The invariant of a statistics row.\<close>

definition statsInvariant :: "AgentStats \<Rightarrow> bool" where
  "statsInvariant s =
    (0 \<le> calls_success s \<and> calls_success s \<le> calls_total s
     \<and> (calls_total s > 0 \<longrightarrow> 0 \<le> avg_rating s \<and> avg_rating s \<le> 1))"

text \<open>The number of transitions a review reports.\<close>

definition moves :: "ReviewCounts \<Rightarrow> nat" where
  "moves c = quarantined c + reactivated c + banned c"

subsection \<open>Example databases\<close>

definition mkAgent :: "string \<Rightarrow> AgentStatus \<Rightarrow> Agent" where
  "mkAgent i st = \<lparr> ident = i, name = ''Agent'', endpoint = ''https://agent.example'',
     description = ''weather forecast service'', intents = [''weather.forecast''], tasks = [],
     tags = [], categories = [''weather''], location_scope = ''Global'', languages = [''en-US''],
     version = ''1.0.0'', input_schema = None, caller_id = Some ''provider-0011223344556677'',
     status = Some st, quarantine_reason = None, quarantine_at = None \<rparr>"

definition mkStats :: "string \<Rightarrow> int \<Rightarrow> int \<Rightarrow> real \<Rightarrow> real \<Rightarrow> AgentStats" where
  "mkStats i ct cs lat r = \<lparr> agent_id = i, calls_total = ct, calls_success = cs,
     avg_latency_ms = lat, avg_rating = r, last_feedback_at = None \<rparr>"

text \<open>An active agent with 40 calls, 4 of them successful, and a healthy one.\<close>

definition db_failing :: db where
  "db_failing = \<lparr> agents = [mkAgent ''agent:a'' Active, mkAgent ''agent:b'' Active],
     agent_stats = [mkStats ''agent:a'' 40 4 100 0.5, mkStats ''agent:b'' 40 40 100 0.9],
     agent_feedbacks = [], fraud_detection_log = [], callers = [] \<rparr>"

text \<open>An active agent with 15 calls, all successful, every one rated 0.\<close>

definition db_zero_rating :: db where
  "db_zero_rating = \<lparr> agents = [mkAgent ''agent:a'' Active],
     agent_stats = [mkStats ''agent:a'' 15 15 100 0],
     agent_feedbacks = [], fraud_detection_log = [], callers = [] \<rparr>"

text \<open>An active agent with 20 calls, 4 of them successful.\<close>

definition db_low_success :: db where
  "db_low_success = \<lparr> agents = [mkAgent ''agent:a'' Active],
     agent_stats = [mkStats ''agent:a'' 20 4 100 0.5],
     agent_feedbacks = [], fraud_detection_log = [], callers = [] \<rparr>"

text \<open>An agent registered a moment ago whose statistics row is missing.\<close>

definition db_no_stats :: db where
  "db_no_stats = \<lparr> agents = [mkAgent ''agent:a'' Active], agent_stats = [],
     agent_feedbacks = [], fraud_detection_log = [], callers = [] \<rparr>"

text \<open>
  A registered agent with its empty statistics row, and a consumer that sends the same
  feedback every five minutes, starting at time 0.
\<close>

definition fbReq :: FeedbackRequest where
  "fbReq = \<lparr> req_agent_id = ''agent:a'', req_success = True, req_latency_ms = 100,
     req_rating = 1, req_consumer_id = ''consumer-8899aabbccddeeff'' \<rparr>"

definition db_registered :: db where
  "db_registered = \<lparr> agents = [mkAgent ''agent:a'' Active],
     agent_stats = [mkStats ''agent:a'' 0 0 0 0],
     agent_feedbacks = [], fraud_detection_log = [], callers = [] \<rparr>"

definition burst :: "nat \<Rightarrow> (int \<times> FeedbackRequest) list" where
  "burst n = map (\<lambda>k. (int k * 300000, fbReq)) [0..<n]"

definition burstRow :: "nat \<Rightarrow> AgentFeedback" where
  "burstRow k = \<lparr> fb_agent_id = ''agent:a'', consumer_id = ''consumer-8899aabbccddeeff'',
     success = True, latency_ms = 100, rating = 1, created_at = int k * 300000 \<rparr>"

text \<open>
  A search scenario: one agent in Sao Paulo without statistics, whose provider secret can
  no longer be decrypted; a request for two categories with the location \<open>none\<close>, and the
  same request without a location.
\<close>

definition agent_sp :: Agent where
  "agent_sp = \<lparr> ident = ''agent:market:sp'', name = ''Market'',
     endpoint = ''https://market.example'', description = ''Supermarket with delivery'',
     intents = [''grocery.price.quote''], tasks = [''get_quote''], tags = [''delivery''],
     categories = [''grocery''], location_scope = ''Sao Paulo,SP,Brazil'', languages = [''pt-BR''],
     version = ''1.0.0'', input_schema = None, caller_id = Some ''provider-0011223344556677'',
     status = Some Active, quarantine_reason = None, quarantine_at = None \<rparr>"

definition db_search :: db where
  "db_search = \<lparr> agents = [agent_sp], agent_stats = [], agent_feedbacks = [],
     fraud_detection_log = [],
     callers = [\<lparr> c_caller_id = ''provider-0011223344556677'', c_type = Provider,
                  c_identifier = ''market|10.0.0.7'', jwt_token = Some ''00ff:a1b2c3'',
                  is_active = True \<rparr>] \<rparr>"

definition request_none :: SearchAgentRequest where
  "request_none = \<lparr> search_intent = None, search_categories = Some [''grocery'', ''pharmacy''],
     search_tags = None, search_location = Some ''none'', search_language = None,
     search_description = None, search_limit = None \<rparr>"

definition request_no_location :: SearchAgentRequest where
  "request_no_location = request_none\<lparr>search_location := None\<rparr>"

definition request_city :: SearchAgentRequest where
  "request_city = \<lparr> search_intent = Some (IntentOne ''grocery.price.quote''),
     search_categories = Some [''grocery''], search_tags = None,
     search_location = Some ''Sao Paulo'', search_language = None,
     search_description = None, search_limit = None \<rparr>"

text \<open>The request for the city with the placeholder \<open>none\<close> as its location.\<close>

definition request_city_none :: SearchAgentRequest where
  "request_city_none = request_city\<lparr>search_location := Some ''none''\<rparr>"

definition no_similarity :: "string \<Rightarrow> string \<Rightarrow> real" where
  "no_similarity a b = 0"

definition cannot_decrypt :: "string \<Rightarrow> string option" where
  "cannot_decrypt t = None"

definition key_ids :: "nat \<Rightarrow> string" where
  "key_ids i = replicate (Suc i) CHR ''7''"

definition can_decrypt :: "string \<Rightarrow> string option" where
  "can_decrypt t = Some ''secret-of-the-provider''"

definition response_city :: SearchAgentResponse where
  "response_city = \<lparr> res_id = ''agent:market:sp'', res_name = ''Market'',
     res_caller_id = Some ''provider-0011223344556677'', res_endpoint = ''https://market.example'',
     res_description = ''Supermarket with delivery'', res_tags = [''delivery''],
     res_intents = [''grocery.price.quote''], res_tasks = [''get_quote''],
     res_categories = [''grocery''], res_location_scope = ''Sao Paulo,SP,Brazil'',
     res_score = 71 / 100, res_input_schema = None \<rparr>"

definition result_city :: SearchResult where
  "result_city = \<lparr> item = response_city,
     execution_key = \<lparr> consumer_caller_id = ''consumer-8899aabbccddeeff'',
        key_agent_id = ''agent:market:sp'', key_id = ''7'',
        signed_with = ''secret-of-the-provider'', expiresIn = 300 \<rparr>,
     key_expires_at = 301000 \<rparr>"

definition result_master :: SearchResult where
  "result_master = \<lparr> item = response_city,
     execution_key = \<lparr> consumer_caller_id = ''consumer-8899aabbccddeeff'',
        key_agent_id = ''agent:market:sp'', key_id = ''7'',
        signed_with = ''registry-master-secret'', expiresIn = 300 \<rparr>,
     key_expires_at = 301000 \<rparr>"


section \<open>Properties of the quarantine service\<close>

subsection \<open>Health report\<close>


text \<open>
  C10. For an agent that exists but has no AgentStats row, the health report has
  health score 1.0, every metric zero, no warning and risk \<open>low\<close>; the health-score
  formula is not applied (on all-zero metrics it would give 0.3).
\<close>

theorem C10_health_without_stats:
  assumes "findById d agentId = Some agent" and "findByAgentId d agentId = None"
  shows "\<exists>h. checkAgentHealth production d agentId = Some h
           \<and> health_score h = 1
           \<and> metrics h = \<lparr> success_rate = 0, m_avg_rating = 0, m_avg_latency_ms = 0,
                 total_feedbacks = 0, fraud_detected = 0, fraud_percentage = 0,
                 self_rating_percentage = 0 \<rparr>
           \<and> warnings h = [] \<and> quarantine_risk h = low
           \<and> healthScore 0 0 0 0 = 3 / 10"
  using assms by (simp add: checkAgentHealth_def healthScore_def)

theorem C10_health_without_stats_witness:
  "findById db_no_stats ''agent:a'' = Some (mkAgent ''agent:a'' Active)
   \<and> findByAgentId db_no_stats ''agent:a'' = None
   \<and> (\<exists>h. checkAgentHealth True db_no_stats ''agent:a'' = Some h
           \<and> health_score h = 1 \<and> warnings h = [] \<and> quarantine_risk h = low)"
proof -
  have a: "findById db_no_stats ''agent:a'' = Some (mkAgent ''agent:a'' Active)"
    by (simp add: findById_def db_no_stats_def mkAgent_def)
  have b: "findByAgentId db_no_stats ''agent:a'' = None"
    by (simp add: findByAgentId_def db_no_stats_def)
  show ?thesis
    using a b C10_health_without_stats[OF a b, of True] by blast
qed

text \<open>
  C8 (as stated) fails: outside production the report of an agent with 20 calls and a
  success rate of 20% carries risk \<open>high\<close>.
\<close>

theorem C8_dev_risk_counterexample:
  "map_option quarantine_risk (checkAgentHealth False db_low_success ''agent:a'') \<noteq> Some low"
proof -
  have "map_option quarantine_risk (checkAgentHealth False db_low_success ''agent:a'') = Some high"
    by code_simp
  then show ?thesis by auto
qed

lemma healthChecks_low:
  "snd (healthChecks ct sr r lat 0 sp) = low \<longleftrightarrow>
     \<not> (ct \<ge> 20 \<and> sr < 0.40) \<and> \<not> (ct \<ge> 15 \<and> r < 0.3) \<and> \<not> (ct \<ge> 10 \<and> lat > 30000)
     \<and> \<not> (sp > 80)"
  by (auto simp add: healthChecks_def check_def)

lemma healthChecks_not_medium:
  "snd (healthChecks ct sr r lat fp sp) \<noteq> medium"
  by (simp add: healthChecks_def check_def)

text \<open>
  C8 (as amended). Outside production the health report of an agent with a statistics row
  has fraud percentage 0, and its risk is still assigned from the statistics: it is \<open>low\<close>
  exactly when none of the success-rate, rating, latency and self-rating thresholds is met,
  and \<open>high\<close> or \<open>critical\<close> otherwise.
\<close>

theorem C8_dev_risk:
  assumes "findById d agentId = Some agent" and "findByAgentId d agentId = Some stats"
  shows "\<exists>h. checkAgentHealth False d agentId = Some h
          \<and> fraud_percentage (metrics h) = 0
          \<and> quarantine_risk h \<noteq> medium
          \<and> (quarantine_risk h = low \<longleftrightarrow>
               \<not> (calls_total stats \<ge> 20
                   \<and> (if calls_total stats > 0
                       then real_of_int (calls_success stats) / real_of_int (calls_total stats)
                       else 0) < 0.40)
             \<and> \<not> (calls_total stats \<ge> 15 \<and> avg_rating stats < 0.3)
             \<and> \<not> (calls_total stats \<ge> 10 \<and> avg_latency_ms stats > 30000)
             \<and> \<not> (selfRatingPercentage (getFraudStats d agentId) > 80))"
  using assms
  by (simp add: checkAgentHealth_def calculateFraudPercentage_def healthChecks_low
      healthChecks_not_medium number_or_def Math_round_def Let_def)

theorem C8_dev_risk_witness:
  "findById db_low_success ''agent:a'' = Some (mkAgent ''agent:a'' Active)
   \<and> findByAgentId db_low_success ''agent:a'' = Some (mkStats ''agent:a'' 20 4 100 0.5)
   \<and> (\<exists>h. checkAgentHealth False db_low_success ''agent:a'' = Some h
          \<and> fraud_percentage (metrics h) = 0 \<and> quarantine_risk h \<noteq> low)"
proof -
  have a: "findById db_low_success ''agent:a'' = Some (mkAgent ''agent:a'' Active)"
    by (simp add: findById_def db_low_success_def mkAgent_def)
  have b: "findByAgentId db_low_success ''agent:a'' = Some (mkStats ''agent:a'' 20 4 100 0.5)"
    by (simp add: findByAgentId_def db_low_success_def mkStats_def)
  show ?thesis
    using a b C8_dev_risk[OF a b] by (auto simp: mkStats_def)
qed

subsection \<open>Auto-review\<close>

text \<open>
  C6 at the failing input: in production, an active agent with \<open>calls_total = 15\<close> and
  \<open>avg_rating = 0\<close> is reported with risk \<open>high\<close> by the health report, and the auto-review
  leaves it active and counts no quarantine: the review reads the rating as
  \<^verbatim>\<open>Number(stats.avg_rating) || 1\<close>, which turns the rating 0 into 1.
\<close>

theorem C6_zero_rating_not_quarantined:
  "agentStatus (agents db_zero_rating ! 0) = Active
   \<and> findByAgentId db_zero_rating ''agent:a'' = Some (mkStats ''agent:a'' 15 15 100 0)
   \<and> calls_total (mkStats ''agent:a'' 15 15 100 0) \<ge> 15
   \<and> avg_rating (mkStats ''agent:a'' 15 15 100 0) < 0.3
   \<and> map_option quarantine_risk (checkAgentHealth True db_zero_rating ''agent:a'') = Some high
   \<and> map status (agents (fst (autoReviewAgents True 0 db_zero_rating))) = [Some Active]
   \<and> snd (autoReviewAgents True 0 db_zero_rating) = noCounts"
  by code_simp

text \<open>
  With any other rating below 0.3 the review does quarantine the agent: the health report
  gives risk \<open>high\<close> or \<open>critical\<close>, and the first or the second branch of the review
  is taken.
\<close>

lemma healthChecks_low_rating:
  "ct \<ge> 15 \<Longrightarrow> r < 0.3 \<Longrightarrow>
     snd (healthChecks ct sr r lat fp sp) = high \<or> snd (healthChecks ct sr r lat fp sp) = critical"
  by (simp add: healthChecks_def check_def)

lemma nonzero_low_rating_quarantined:
  assumes "findById d (ident a) = Some a'" and "agentStatus a = Active"
    and "findByAgentId d (ident a) = Some st"
    and "calls_total st \<ge> 15" and "avg_rating st < 0.3" and "avg_rating st \<noteq> 0"
  shows "\<exists>reason. reviewAction production d a = DoQuarantine reason"
proof -
  obtain h where h: "checkAgentHealth production d (ident a) = Some h"
    and risk: "quarantine_risk h = snd (healthChecks (calls_total st)
          (if calls_total st > 0
           then real_of_int (calls_success st) / real_of_int (calls_total st) else 0)
          (avg_rating st) (number_or (avg_latency_ms st) 0)
          (calculateFraudPercentage production d (ident a))
          (selfRatingPercentage (getFraudStats d (ident a))))"
    using assms(1,3,6) by (simp add: checkAgentHealth_def Let_def number_or_def)
  have "quarantine_risk h = high \<or> quarantine_risk h = critical"
    unfolding risk by (rule healthChecks_low_rating[OF assms(4,5)])
  then have "\<exists>reason. reviewActive d a h = DoQuarantine reason"
    using assms(3-6) by (auto simp: reviewActive_def Let_def number_or_def)
  then show ?thesis
    using h assms(2) by (simp add: reviewAction_def)
qed

text \<open>
  C5 (as stated) fails: the first run quarantines the agent with 40 calls and a success
  rate of 10%, and the second run, on unchanged statistics, bans it and reports one ban.
\<close>

theorem C5_idempotence_counterexample:
  "map status (agents (fst (autoReviewAgents True 0 db_failing))) = [Some Quarantine, Some Active]
   \<and> map status (agents (fst (autoReviewAgents True 0 (fst (autoReviewAgents True 0 db_failing)))))
       = [Some Banned, Some Active]
   \<and> banned (snd (autoReviewAgents True 0 (fst (autoReviewAgents True 0 db_failing)))) = 1"
  by code_simp

lemma find_rel:
  "list_all2 (\<lambda>a b. ident a = ident b \<and> caller_id a = caller_id b) xs ys \<Longrightarrow>
   map_option caller_id (find (\<lambda>a. ident a = x) xs) = map_option caller_id (find (\<lambda>a. ident a = x) ys)
   \<and> (find (\<lambda>a. ident a = x) xs = None \<longleftrightarrow> find (\<lambda>a. ident a = x) ys = None)"
  by (induction rule: list_all2_induct) auto

lemma sameReviewData_refl: "sameReviewData d d"
  by (simp add: sameReviewData_def list_all2_refl)

lemma sameReviewData_trans:
  assumes "sameReviewData d d'" and "sameReviewData d' d''"
  shows "sameReviewData d d''"
proof -
  have r1: "list_all2 (\<lambda>a b. ident a = ident b \<and> caller_id a = caller_id b) (agents d) (agents d')"
    and r2: "list_all2 (\<lambda>a b. ident a = ident b \<and> caller_id a = caller_id b) (agents d') (agents d'')"
    using assms by (simp_all add: sameReviewData_def)
  have "list_all2 (\<lambda>a b. ident a = ident b \<and> caller_id a = caller_id b) (agents d) (agents d'')"
    by (rule list_all2_trans[OF _ r1 r2]) auto
  then show ?thesis using assms by (simp add: sameReviewData_def)
qed

lemma stats_same: "sameReviewData d d' \<Longrightarrow> findByAgentId d' x = findByAgentId d x"
  by (simp add: sameReviewData_def findByAgentId_def)

lemma fraudStats_same:
  assumes "sameReviewData d d'"
  shows "getFraudStats d' x = getFraudStats d x"
proof -
  have r: "list_all2 (\<lambda>a b. ident a = ident b \<and> caller_id a = caller_id b) (agents d) (agents d')"
    using assms by (simp add: sameReviewData_def)
  have e1: "(case findById d' x of None \<Rightarrow> None | Some a \<Rightarrow> caller_id a)
      = (case findById d x of None \<Rightarrow> None | Some a \<Rightarrow> caller_id a)"
    using find_rel[OF r, of x] unfolding findById_def
    by (auto split: option.splits)
  have e2: "agent_feedbacks d' = agent_feedbacks d"
    using assms by (simp add: sameReviewData_def)
  show ?thesis
    unfolding getFraudStats_def e1 e2 ..
qed

lemma fraudPct_same:
  assumes "sameReviewData d d'"
  shows "calculateFraudPercentage p d' x = calculateFraudPercentage p d x"
proof -
  have e: "fraud_detection_log d' = fraud_detection_log d"
    using assms by (simp add: sameReviewData_def)
  show ?thesis
    unfolding calculateFraudPercentage_def getTotalFraudCount_def fraudStats_same[OF assms] e ..
qed

lemma health_same:
  assumes "sameReviewData d d'"
  shows "map_option (\<lambda>h. (quarantine_risk h, metrics h)) (checkAgentHealth p d' x)
       = map_option (\<lambda>h. (quarantine_risk h, metrics h)) (checkAgentHealth p d x)"
proof -
  have r: "list_all2 (\<lambda>a b. ident a = ident b \<and> caller_id a = caller_id b) (agents d) (agents d')"
    using assms by (simp add: sameReviewData_def)
  have n: "findById d' x = None \<longleftrightarrow> findById d x = None"
    using find_rel[OF r, of x] unfolding findById_def by simp
  show ?thesis
    using n unfolding checkAgentHealth_def
    by (auto simp add: stats_same[OF assms] fraudPct_same[OF assms] fraudStats_same[OF assms] Let_def split: option.splits)
qed

lemma reviewAction_same:
  assumes "sameReviewData d d'"
  shows "reviewAction p d' a = reviewAction p d a"
proof -
  have h: "map_option (\<lambda>h. (quarantine_risk h, metrics h)) (checkAgentHealth p d' (ident a))
       = map_option (\<lambda>h. (quarantine_risk h, metrics h)) (checkAgentHealth p d (ident a))"
    by (rule health_same[OF assms])
  show ?thesis
  proof (cases "checkAgentHealth p d (ident a)")
    case None
    with h have "checkAgentHealth p d' (ident a) = None" by simp
    with None show ?thesis by (simp add: reviewAction_def)
  next
    case (Some h0)
    with h obtain h1 where h1: "checkAgentHealth p d' (ident a) = Some h1"
      and e: "quarantine_risk h1 = quarantine_risk h0" "metrics h1 = metrics h0"
      by (cases "checkAgentHealth p d' (ident a)") auto
    have A: "reviewActive d' a h1 = reviewActive d a h0"
      unfolding reviewActive_def e stats_same[OF assms] ..
    have Q: "reviewQuarantine d' a h1 = reviewQuarantine d a h0"
      unfolding reviewQuarantine_def e stats_same[OF assms] ..
    show ?thesis
      unfolding reviewAction_def Some h1 option.case A Q ..
  qed
qed

lemma perform_agents:
  "agents (fst (perform True now x act s))
     = map (\<lambda>b. if ident b = x then rewrite now act b else b) (agents (fst s))"
  by (cases act)
     (simp_all add: perform_def rewrite_def quarantineAgent_def banAgent_def reactivateAgent_def
        map_idI)

lemma perform_rest:
  "agent_stats (fst (perform True now x act s)) = agent_stats (fst s)"
  "agent_feedbacks (fst (perform True now x act s)) = agent_feedbacks (fst s)"
  "fraud_detection_log (fst (perform True now x act s)) = fraud_detection_log (fst s)"
  "callers (fst (perform True now x act s)) = callers (fst s)"
  by (cases act; simp add: perform_def quarantineAgent_def banAgent_def reactivateAgent_def)+

lemma rewrite_ident [simp]: "ident (rewrite now act b) = ident b"
  and rewrite_caller [simp]: "caller_id (rewrite now act b) = caller_id b"
  by (cases act; simp add: rewrite_def)+

lemma perform_same: "sameReviewData (fst s) (fst (perform True now x act s))"
  unfolding sameReviewData_def perform_rest perform_agents
  by (simp add: list_all2_map2 list_all2_refl)

lemma fold_review_agents:
  assumes "distinct (map ident xs)" and "sameReviewData d0 (fst s)"
  shows "agents (fst (fold (reviewAgent True now) xs s))
       = map (\<lambda>b. case find (\<lambda>a. ident a = ident b) xs of
                      None \<Rightarrow> b
                    | Some a \<Rightarrow> rewrite now (reviewAction True d0 a) b) (agents (fst s))
        \<and> sameReviewData d0 (fst (fold (reviewAgent True now) xs s))"
  using assms
proof (induction xs arbitrary: s)
  case Nil
  then show ?case by (simp add: map_idI)
next
  case (Cons a xs)
  let ?s' = "reviewAgent True now a s"
  have act: "reviewAction True (fst s) a = reviewAction True d0 a"
    by (rule reviewAction_same[OF Cons.prems(2)])
  have s': "?s' = perform True now (ident a) (reviewAction True d0 a) s"
    by (simp add: reviewAgent_def act)
  have same: "sameReviewData d0 (fst ?s')"
    unfolding s' by (rule sameReviewData_trans[OF Cons.prems(2) perform_same])
  have d: "distinct (map ident xs)" and nin: "ident a \<notin> ident ` set xs"
    using Cons.prems(1) by auto
  have nf: "find (\<lambda>a'. ident a' = ident a) xs = None"
  proof -
    have "\<not> (\<exists>x. x \<in> set xs \<and> ident x = ident a)"
    proof
      assume "\<exists>x. x \<in> set xs \<and> ident x = ident a"
      then obtain x where "x \<in> set xs" "ident x = ident a" by blast
      then have "ident a \<in> ident ` set xs" by (metis imageI)
      with nin show False by simp
    qed
    then show ?thesis by (simp add: find_None_iff)
  qed
  have IH: "agents (fst (fold (reviewAgent True now) xs ?s'))
       = map (\<lambda>b. case find (\<lambda>a. ident a = ident b) xs of
                      None \<Rightarrow> b
                    | Some a \<Rightarrow> rewrite now (reviewAction True d0 a) b) (agents (fst ?s'))"
    and IH2: "sameReviewData d0 (fst (fold (reviewAgent True now) xs ?s'))"
    using Cons.IH[OF d same] by simp_all
  have "agents (fst (fold (reviewAgent True now) (a # xs) s))
      = map (\<lambda>b. case find (\<lambda>a. ident a = ident b) xs of
                      None \<Rightarrow> b
                    | Some a \<Rightarrow> rewrite now (reviewAction True d0 a) b) (agents (fst ?s'))"
    using IH by simp
  also have "\<dots> = map (\<lambda>b. case find (\<lambda>a'. ident a' = ident b) (a # xs) of
                      None \<Rightarrow> b
                    | Some a' \<Rightarrow> rewrite now (reviewAction True d0 a') b) (agents (fst s))"
    unfolding s' perform_agents using nf by (auto simp: comp_def)
  finally show ?case using IH2 by simp
qed

lemma fold_review_callers:
  "callers (fst (fold (reviewAgent True now) xs s)) = callers (fst s)"
  by (induction xs arbitrary: s) (simp_all add: reviewAgent_def perform_rest)


lemma perform_moves:
  "moves (snd (perform True now x act s)) = moves (snd s) + (if act = NoAction then 0 else 1)"
  by (cases act) (simp_all add: perform_def moves_def)

lemma fold_review_moves:
  assumes "sameReviewData d0 (fst s)"
  shows "moves (snd (fold (reviewAgent True now) xs s))
       = moves (snd s) + length (filter (\<lambda>a. reviewAction True d0 a \<noteq> NoAction) xs)"
  using assms
proof (induction xs arbitrary: s)
  case Nil
  then show ?case by simp
next
  case (Cons a xs)
  let ?s' = "reviewAgent True now a s"
  have act: "reviewAction True (fst s) a = reviewAction True d0 a"
    by (rule reviewAction_same[OF Cons.prems])
  have s': "?s' = perform True now (ident a) (reviewAction True d0 a) s"
    by (simp add: reviewAgent_def act)
  have same: "sameReviewData d0 (fst ?s')"
    unfolding s' by (rule sameReviewData_trans[OF Cons.prems perform_same])
  have "moves (snd (fold (reviewAgent True now) (a # xs) s))
      = moves (snd ?s') + length (filter (\<lambda>a. reviewAction True d0 a \<noteq> NoAction) xs)"
    using Cons.IH[OF same] by simp
  also have "moves (snd ?s') = moves (snd s) + (if reviewAction True d0 a = NoAction then 0 else 1)"
    unfolding s' by (rule perform_moves)
  finally show ?case by simp
qed

lemma find_self:
  "distinct (map f xs) \<Longrightarrow> b \<in> set xs \<Longrightarrow> find (\<lambda>a. f a = f b) xs = Some b"
  by (induction xs) (auto simp: image_iff)

lemma review_run:
  assumes "distinct (map ident (agents d))"
  shows "agents (fst (autoReviewAgents True now d))
           = map (\<lambda>b. rewrite now (reviewAction True d b) b) (agents d)"
    and "sameReviewData d (fst (autoReviewAgents True now d))"
    and "callers (fst (autoReviewAgents True now d)) = callers d"
    and "moves (snd (autoReviewAgents True now d))
           = length (filter (\<lambda>a. reviewAction True d a \<noteq> NoAction) (agents d))"
proof -
  have s: "sameReviewData d (fst (d, noCounts))"
    by (simp add: sameReviewData_refl)
  have "agents (fst (autoReviewAgents True now d))
      = map (\<lambda>b. case find (\<lambda>a. ident a = ident b) (agents d) of
                      None \<Rightarrow> b
                    | Some a \<Rightarrow> rewrite now (reviewAction True d a) b) (agents d)"
    using fold_review_agents[OF assms s, of now]
    by (simp add: autoReviewAgents_def findAll_def)
  also have "\<dots> = map (\<lambda>b. rewrite now (reviewAction True d b) b) (agents d)"
    by (rule map_cong) (simp_all add: find_self[OF assms])
  finally show "agents (fst (autoReviewAgents True now d))
           = map (\<lambda>b. rewrite now (reviewAction True d b) b) (agents d)" .
  show "sameReviewData d (fst (autoReviewAgents True now d))"
    using fold_review_agents[OF assms s, of now]
    by (simp add: autoReviewAgents_def findAll_def)
  show "callers (fst (autoReviewAgents True now d)) = callers d"
    by (simp add: autoReviewAgents_def fold_review_callers)
  show "moves (snd (autoReviewAgents True now d))
           = length (filter (\<lambda>a. reviewAction True d a \<noteq> NoAction) (agents d))"
    using fold_review_moves[OF s, of now "agents d"]
    by (simp add: autoReviewAgents_def findAll_def moves_def noCounts_def)
qed

lemma reviewActive_not:
  "reviewActive d a h \<noteq> DoBan r" "reviewActive d a h \<noteq> DoReactivate"
  unfolding reviewActive_def by (simp_all add: Let_def split: option.splits)

lemma reviewQuarantine_not:
  "reviewQuarantine d a h \<noteq> DoQuarantine r"
  unfolding reviewQuarantine_def by (simp add: Let_def split: option.splits)

lemma reviewAction_status:
  "reviewAction p d b = DoQuarantine r \<Longrightarrow> agentStatus b = Active"
  "reviewAction p d b = DoBan r \<Longrightarrow> agentStatus b = Quarantine"
  "reviewAction p d b = DoReactivate \<Longrightarrow> agentStatus b = Quarantine"
  unfolding reviewAction_def
  by (auto simp: Let_def reviewActive_not reviewQuarantine_not split: option.splits if_splits)

lemma rewrite_status_changes:
  assumes "status (rewrite now (reviewAction True d b) b) = status b"
  shows "reviewAction True d b = NoAction"
proof (cases "reviewAction True d b")
  case NoAction
  then show ?thesis .
next
  case (DoQuarantine r)
  with assms reviewAction_status(1)[OF DoQuarantine] show ?thesis
    by (auto simp: rewrite_def agentStatus_def split: option.splits)
next
  case (DoBan r)
  with assms reviewAction_status(2)[OF DoBan] show ?thesis
    by (auto simp: rewrite_def agentStatus_def split: option.splits)
next
  case DoReactivate
  with assms reviewAction_status(3)[OF DoReactivate] show ?thesis
    by (auto simp: rewrite_def agentStatus_def split: option.splits)
qed

lemma sameReviewData_distinct:
  assumes "sameReviewData d d'" shows "map ident (agents d') = map ident (agents d)"
proof -
  have "list_all2 (\<lambda>a b. ident a = ident b \<and> caller_id a = caller_id b) (agents d) (agents d')"
    using assms by (simp add: sameReviewData_def)
  then show ?thesis by (induction rule: list_all2_induct) auto
qed

lemma zero_moves_fixpoint:
  assumes "distinct (map ident (agents d))" and "snd (autoReviewAgents True now d) = noCounts"
  shows "autoReviewAgents True now' d = (d, noCounts)"
proof -
  have "moves (snd (autoReviewAgents True now d)) = 0"
    using assms(2) by (simp add: moves_def noCounts_def)
  then have none: "filter (\<lambda>a. reviewAction True d a \<noteq> NoAction) (agents d) = []"
    using review_run(4)[OF assms(1), of now] by simp
  then have all: "\<And>b. b \<in> set (agents d) \<Longrightarrow> reviewAction True d b = NoAction"
    by (auto simp: filter_empty_conv)
  have a: "agents (fst (autoReviewAgents True now' d)) = agents d"
    unfolding review_run(1)[OF assms(1)]
    by (rule map_idI) (simp add: all rewrite_def)
  have r: "sameReviewData d (fst (autoReviewAgents True now' d))"
    by (rule review_run(2)[OF assms(1)])
  have c: "callers (fst (autoReviewAgents True now' d)) = callers d"
    by (rule review_run(3)[OF assms(1)])
  have d: "fst (autoReviewAgents True now' d) = d"
    using a r c by (simp add: sameReviewData_def)
  have "moves (snd (autoReviewAgents True now' d)) = 0"
    using review_run(4)[OF assms(1), of now'] none by simp
  then have "snd (autoReviewAgents True now' d) = noCounts"
    by (simp add: moves_def noCounts_def)
  with d show ?thesis by (simp add: prod_eq_iff)
qed

text \<open>
  C5 (as amended). With unique agent ids (the primary key of the table), a second run of
  the auto-review right after a first one leaves every agent row that the first run left
  with its status exactly as it was; and when the first run reports no transition at all,
  the second run changes nothing and reports zero quarantined, reactivated and banned
  agents. An agent that the first run moved may move again.
\<close>

theorem C5_second_run:
  assumes "distinct (map ident (agents d0))"
  shows "(\<forall>i < length (agents d0).
            length (agents (fst (autoReviewAgents True now d0))) = length (agents d0)
          \<and> (status (agents (fst (autoReviewAgents True now d0)) ! i) = status (agents d0 ! i)
              \<longrightarrow> agents (fst (autoReviewAgents True now' (fst (autoReviewAgents True now d0)))) ! i
                    = agents d0 ! i))
       \<and> (snd (autoReviewAgents True now d0) = noCounts
            \<longrightarrow> autoReviewAgents True now' (fst (autoReviewAgents True now d0)) = (d0, noCounts))"
proof -
  let ?d1 = "fst (autoReviewAgents True now d0)"
  have same: "sameReviewData d0 ?d1"
    by (rule review_run(2)[OF assms])
  have dist1: "distinct (map ident (agents ?d1))"
    using assms sameReviewData_distinct[OF same] by simp
  have a1: "agents ?d1 = map (\<lambda>b. rewrite now (reviewAction True d0 b) b) (agents d0)"
    by (rule review_run(1)[OF assms])
  have a2: "agents (fst (autoReviewAgents True now' ?d1))
          = map (\<lambda>b. rewrite now' (reviewAction True d0 b) b) (agents ?d1)"
    unfolding review_run(1)[OF dist1] using reviewAction_same[OF same] by simp
  have rows: "\<forall>i < length (agents d0).
            length (agents ?d1) = length (agents d0)
          \<and> (status (agents ?d1 ! i) = status (agents d0 ! i)
              \<longrightarrow> agents (fst (autoReviewAgents True now' ?d1)) ! i = agents d0 ! i)"
  proof (intro allI impI conjI)
    fix i assume i: "i < length (agents d0)"
    show "length (agents ?d1) = length (agents d0)" by (simp add: a1)
    assume st: "status (agents ?d1 ! i) = status (agents d0 ! i)"
    have "reviewAction True d0 (agents d0 ! i) = NoAction"
      by (rule rewrite_status_changes[of now]) (use st i in \<open>simp add: a1\<close>)
    then show "agents (fst (autoReviewAgents True now' ?d1)) ! i = agents d0 ! i"
      using i by (simp add: a2 a1 rewrite_def)
  qed
  have fixp: "snd (autoReviewAgents True now d0) = noCounts
            \<longrightarrow> autoReviewAgents True now' ?d1 = (d0, noCounts)"
  proof
    assume z: "snd (autoReviewAgents True now d0) = noCounts"
    have "autoReviewAgents True now d0 = (d0, noCounts)"
      by (rule zero_moves_fixpoint[OF assms z])
    then have "?d1 = d0" by simp
    then show "autoReviewAgents True now' ?d1 = (d0, noCounts)"
      using zero_moves_fixpoint[OF assms z, of now'] by simp
  qed
  show ?thesis using rows fixp by blast
qed

theorem C5_second_run_witness:
  "distinct (map ident (agents db_failing))
   \<and> 1 < length (agents db_failing)
   \<and> status (agents (fst (autoReviewAgents True 0 db_failing)) ! 1) = status (agents db_failing ! 1)
   \<and> agents (fst (autoReviewAgents True 5 (fst (autoReviewAgents True 0 db_failing)))) ! 1
       = agents db_failing ! 1"
proof -
  have h: "distinct (map ident (agents db_failing))"
    by code_simp
  have l: "1 < length (agents db_failing)"
    by code_simp
  have s: "status (agents (fst (autoReviewAgents True 0 db_failing)) ! 1)
             = status (agents db_failing ! 1)"
    by code_simp
  show ?thesis
    using h l s C5_second_run[OF h, of 0 5] by blast
qed

section \<open>Properties of the feedback pipeline\<close>

lemma createFraud_frame [simp]:
  "agents (createFraud now d a c t s) = agents d"
  "agent_stats (createFraud now d a c t s) = agent_stats d"
  "agent_feedbacks (createFraud now d a c t s) = agent_feedbacks d"
  "callers (createFraud now d a c t s) = callers d"
  by (simp_all add: createFraud_def)

lemma detectSelfRating_frame:
  "agents (fst (detectSelfRating p now d c a)) = agents d"
  "agent_stats (fst (detectSelfRating p now d c a)) = agent_stats d"
  "agent_feedbacks (fst (detectSelfRating p now d c a)) = agent_feedbacks d"
  by (simp_all add: detectSelfRating_def split: option.splits)

lemma detectSelfRating_weight:
  "snd (snd (detectSelfRating p now d c a)) = 0.1 \<or> snd (snd (detectSelfRating p now d c a)) = 1"
  by (simp add: detectSelfRating_def split: option.splits)

lemma detectSpam_frame:
  "agents (fst (detectSpam p now d c a)) = agents d"
  "agent_stats (fst (detectSpam p now d c a)) = agent_stats d"
  "agent_feedbacks (fst (detectSpam p now d c a)) = agent_feedbacks d"
  by (simp_all add: detectSpam_def Let_def)

lemma detectRatingPatterns_frame:
  "agents (fst (detectRatingPatterns p now d a)) = agents d"
  "agent_stats (fst (detectRatingPatterns p now d a)) = agent_stats d"
  "agent_feedbacks (fst (detectRatingPatterns p now d a)) = agent_feedbacks d"
  by (simp_all add: detectRatingPatterns_def Let_def)

lemma countRecent_feedbacks:
  "agent_feedbacks d' = agent_feedbacks d \<Longrightarrow>
   countRecentByConsumerAndAgent now d' c a h = countRecentByConsumerAndAgent now d c a h"
  by (simp add: countRecentByConsumerAndAgent_def)

lemma detectSpam_verdict:
  "snd (detectSpam True now d c a) \<longleftrightarrow> countRecentByConsumerAndAgent now d c a 1 > 10"
  by (simp add: detectSpam_def Let_def)

lemma analyzeFeedback_frame:
  "agents (fst (analyzeFeedback p now d c a)) = agents d"
  "agent_stats (fst (analyzeFeedback p now d c a)) = agent_stats d"
  "agent_feedbacks (fst (analyzeFeedback p now d c a)) = agent_feedbacks d"
  by (simp_all add: analyzeFeedback_def Let_def detectSelfRating_frame detectSpam_frame
      detectRatingPatterns_frame)

lemma analyzeFeedback_block:
  "shouldBlock (snd (analyzeFeedback True now d c a))
     \<longleftrightarrow> countRecentByConsumerAndAgent now d c a 1 > 10"
  by (simp add: analyzeFeedback_def Let_def detectSpam_verdict
      countRecent_feedbacks[OF detectSelfRating_frame(3)])

lemma analyzeFeedback_dev_block: "\<not> shouldBlock (snd (analyzeFeedback False now d c a))"
  by (simp add: analyzeFeedback_def)

lemma calculateFeedbackWeight_bounds:
  "0 < calculateFeedbackWeight p d c a \<and> calculateFeedbackWeight p d c a \<le> 1"
proof (cases "p \<and> countByConsumerAndAgent d c a \<noteq> 0")
  case False
  then show ?thesis by (auto simp: calculateFeedbackWeight_def Let_def)
next
  case True
  let ?n = "countByConsumerAndAgent d c a"
  have "0 \<le> ln (1 + real ?n)" by simp
  then have p1: "0 < 1 + ln (1 + real ?n)" and p2: "1 \<le> 1 + ln (1 + real ?n)" by linarith+
  then have u: "1 / (1 + ln (1 + real ?n)) \<le> 1" by (simp only: divide_le_eq_1_pos)
  have w: "calculateFeedbackWeight p d c a = max 0.1 (1 / (1 + ln (1 + real ?n)))"
    using True by (simp add: calculateFeedbackWeight_def Let_def)
  show ?thesis unfolding w using u p1 by (simp add: max_def)
qed

lemma analyzeFeedback_weight:
  assumes "\<not> shouldBlock (snd (analyzeFeedback p now d c a))"
  shows "0 < totalWeight (snd (analyzeFeedback p now d c a))
       \<and> totalWeight (snd (analyzeFeedback p now d c a)) \<le> 1"
proof (cases p)
  case False
  then show ?thesis by (simp add: analyzeFeedback_def)
next
  case True
  let ?sr = "detectSelfRating p now d c a"
  let ?sp = "detectSpam p now (fst ?sr) c a"
  have ns: "\<not> snd ?sp"
    using assms True by (auto simp: analyzeFeedback_def Let_def split: if_splits)
  have w: "totalWeight (snd (analyzeFeedback p now d c a))
         = snd (snd ?sr) * calculateFeedbackWeight p (fst ?sp) c a"
    using True ns by (simp add: analyzeFeedback_def Let_def)
  have b: "0 < calculateFeedbackWeight p (fst ?sp) c a" "calculateFeedbackWeight p (fst ?sp) c a \<le> 1"
    using calculateFeedbackWeight_bounds by auto
  from detectSelfRating_weight[of p now d c a] show ?thesis
  proof
    assume "snd (snd ?sr) = 0.1"
    with w b show ?thesis by simp
  next
    assume "snd (snd ?sr) = 1"
    with w b show ?thesis by simp
  qed
qed

lemma statsInvariant_update:
  assumes inv: "statsInvariant s" and r: "0 \<le> r" "r \<le> 1" and w: "0 < w" "w \<le> 1"
  shows "statsInvariant (s\<lparr>calls_total := calls_total s + 1,
            calls_success := calls_success s + (if b then 1 else 0),
            avg_latency_ms := l,
            avg_rating := number_or (avg_rating s) 0
                + (r * w - number_or (avg_rating s) 0) / real_of_int (calls_total s + 1),
            last_feedback_at := t\<rparr>)"
proof -
  let ?n = "real_of_int (calls_total s)"
  let ?c = "avg_rating s"
  have n0: "0 \<le> ?n" using inv by (simp add: statsInvariant_def)
  have rw: "0 \<le> r * w" "r * w \<le> 1"
    using r w by (simp_all add: mult_le_one)
  have eq: "?c + (r * w - ?c) / (?n + 1) = (?c * ?n + r * w) / (?n + 1)"
    using n0 by (simp add: field_simps)
  have "0 \<le> (?c * ?n + r * w) / (?n + 1) \<and> (?c * ?n + r * w) / (?n + 1) \<le> 1"
  proof (cases "calls_total s > 0")
    case True
    then have c: "0 \<le> ?c" "?c \<le> 1" using inv by (simp_all add: statsInvariant_def)
    have "0 \<le> ?c * ?n" using c n0 by simp
    moreover have "?c * ?n \<le> ?n" using c n0 by (simp add: mult_left_le_one_le)
    ultimately show ?thesis using rw n0 by (simp add: divide_le_eq)
  next
    case False
    then have "?n = 0" using n0 by simp
    then show ?thesis using rw by simp
  qed
  then show ?thesis
    using inv eq by (simp add: statsInvariant_def number_or_def)
qed

lemma statsInvariant_new:
  assumes r: "0 \<le> r" "r \<le> 1" and w: "0 < w" "w \<le> 1"
  shows "statsInvariant \<lparr> agent_id = a, calls_total = 1, calls_success = (if b then 1 else 0),
            avg_latency_ms = l, avg_rating = r * w, last_feedback_at = t \<rparr>"
  using r w by (simp add: statsInvariant_def mult_le_one)

lemma incrementFeedbackWeighted_invariant:
  assumes "\<forall>s \<in> set (agent_stats d). statsInvariant s"
    and "0 \<le> r" "r \<le> 1" "0 < w" "w \<le> 1"
  shows "\<forall>s \<in> set (agent_stats (incrementFeedbackWeighted now d a b l r w)). statsInvariant s"
proof (cases "findByAgentId d a")
  case None
  have "statsInvariant \<lparr> agent_id = a, calls_total = 1, calls_success = (if b then 1 else 0),
            avg_latency_ms = l, avg_rating = r * w, last_feedback_at = Some now \<rparr>"
    by (rule statsInvariant_new[OF assms(2-5)])
  then show ?thesis
    using None assms(1) by (auto simp: incrementFeedbackWeighted_def)
next
  case (Some e)
  then have e: "e \<in> set (agent_stats d)"
    by (auto simp: findByAgentId_def find_Some_iff)
  have "statsInvariant e" using assms(1) e by simp
  from statsInvariant_update[OF this assms(2-5)]
  have U: "\<And>b l t. statsInvariant (e\<lparr>calls_total := calls_total e + 1,
            calls_success := calls_success e + (if b then 1 else 0),
            avg_latency_ms := l,
            avg_rating := number_or (avg_rating e) 0
                + (r * w - number_or (avg_rating e) 0) / real_of_int (calls_total e + 1),
            last_feedback_at := t\<rparr>)" .
  show ?thesis
  proof
    fix s assume "s \<in> set (agent_stats (incrementFeedbackWeighted now d a b l r w))"
    then obtain s0 where s0: "s0 \<in> set (agent_stats d)"
      and s: "s = s0 \<or> s = s0\<lparr>calls_total := calls_total e + 1,
            calls_success := calls_success e + (if b then 1 else 0),
            avg_latency_ms := number_or (avg_latency_ms e) 0
                + (l - number_or (avg_latency_ms e) 0) / real_of_int (calls_total e + 1),
            avg_rating := number_or (avg_rating e) 0
                + (r * w - number_or (avg_rating e) 0) / real_of_int (calls_total e + 1),
            last_feedback_at := Some now\<rparr>"
      using Some by (auto simp: incrementFeedbackWeighted_def Let_def split: if_splits)
    from s show "statsInvariant s"
    proof
      assume "s = s0" then show ?thesis using assms(1) s0 by simp
    next
      assume "s = s0\<lparr>calls_total := calls_total e + 1,
            calls_success := calls_success e + (if b then 1 else 0),
            avg_latency_ms := number_or (avg_latency_ms e) 0
                + (l - number_or (avg_latency_ms e) 0) / real_of_int (calls_total e + 1),
            avg_rating := number_or (avg_rating e) 0
                + (r * w - number_or (avg_rating e) 0) / real_of_int (calls_total e + 1),
            last_feedback_at := Some now\<rparr>"
      then show ?thesis
        using U[where b = b and t = "Some now" and l = l] by (simp add: statsInvariant_def)
    qed
  qed
qed

lemma submitFeedback_invariant:
  assumes "\<forall>s \<in> set (agent_stats d). statsInvariant s"
  shows "\<forall>s \<in> set (agent_stats (fst (submitFeedback p now d req))). statsInvariant s"
proof (cases "validateFeedbackRequest req = None
    \<and> \<not> countRecentByConsumer now d (req_consumer_id req) 1 \<ge> 60
    \<and> findById d (req_agent_id req) \<noteq> None
    \<and> \<not> shouldBlock (snd (analyzeFeedback p now d (req_consumer_id req) (req_agent_id req)))")
  case False
  then show ?thesis
    using assms
    by (auto simp: submitFeedback_def Let_def analyzeFeedback_frame split: option.splits)
next
  case True
  let ?fa = "analyzeFeedback p now d (req_consumer_id req) (req_agent_id req)"
  let ?d1 = "createFeedback now (fst ?fa) (req_agent_id req)
                                    (req_consumer_id req) (req_success req)
                                    (req_latency_ms req) (req_rating req)"
  have r: "0 \<le> req_rating req" "req_rating req \<le> 1"
    using True by (auto simp: validateFeedbackRequest_def split: if_splits)
  have w: "0 < totalWeight (snd ?fa)" "totalWeight (snd ?fa) \<le> 1"
    using analyzeFeedback_weight True by auto
  have d1: "\<forall>s \<in> set (agent_stats ?d1). statsInvariant s"
    using assms by (simp add: createFeedback_def analyzeFeedback_frame)
  have res: "fst (submitFeedback p now d req)
           = incrementFeedbackWeighted now ?d1 (req_agent_id req) (req_success req)
               (req_latency_ms req) (req_rating req) (totalWeight (snd ?fa))"
    using True by (auto simp: submitFeedback_def Let_def)
  show ?thesis
    unfolding res by (rule incrementFeedbackWeighted_invariant[OF d1 r w])
qed

lemma submitAll_invariant:
  "\<forall>s \<in> set (agent_stats d). statsInvariant s \<Longrightarrow>
   \<forall>s \<in> set (agent_stats (submitAll p d xs)). statsInvariant s"
proof (induction xs arbitrary: d)
  case Nil
  then show ?case by simp
next
  case (Cons x xs)
  have "\<forall>s \<in> set (agent_stats (fst (submitFeedback p (fst x) d (snd x)))). statsInvariant s"
    by (rule submitFeedback_invariant[OF Cons.prems])
  then show ?case using Cons.IH by simp
qed

lemma find_update:
  assumes "\<And>x. P (f x) = P x"
  shows "find P (map f xs) = map_option f (find P xs)"
  by (induction xs) (simp_all add: assms)

lemma find_snoc:
  "find P (xs @ ys) = (case find P xs of None \<Rightarrow> find P ys | Some x \<Rightarrow> Some x)"
  by (induction xs) simp_all

lemma incrementFeedbackWeighted_calls_total:
  "map_option calls_total (findByAgentId (incrementFeedbackWeighted now d a b l r w) a)
     = Some (case findByAgentId d a of None \<Rightarrow> 1 | Some s \<Rightarrow> calls_total s + 1)"
proof (cases "findByAgentId d a")
  case None
  then have "find (\<lambda>s. agent_id s = a) (agent_stats d) = None"
    by (simp add: findByAgentId_def)
  then show ?thesis
    using None by (simp add: incrementFeedbackWeighted_def findByAgentId_def find_snoc)
next
  case (Some e)
  then have f: "find (\<lambda>s. agent_id s = a) (agent_stats d) = Some e" and ea: "agent_id e = a"
    by (auto simp: findByAgentId_def find_Some_iff)
  show ?thesis
    using Some f ea
    by (simp add: incrementFeedbackWeighted_def findByAgentId_def Let_def find_update)
qed

lemma incrementFeedbackWeighted_frame:
  "agents (incrementFeedbackWeighted now d a b l r w) = agents d"
  "agent_feedbacks (incrementFeedbackWeighted now d a b l r w) = agent_feedbacks d"
  "fraud_detection_log (incrementFeedbackWeighted now d a b l r w) = fraud_detection_log d"
  by (simp_all add: incrementFeedbackWeighted_def Let_def split: option.splits)

lemma submitFeedback_accepted:
  assumes valid: "validateFeedbackRequest req = None"
    and rate: "countRecentByConsumer now d (req_consumer_id req) 1 < 60"
    and agent: "findById d (req_agent_id req) = Some ag"
    and spam: "countRecentByConsumerAndAgent now d (req_consumer_id req) (req_agent_id req) 1 \<le> 10"
  shows "snd (submitFeedback True now d req) = Inr ()"
    and "agents (fst (submitFeedback True now d req)) = agents d"
    and "agent_feedbacks (fst (submitFeedback True now d req)) = agent_feedbacks d @
          [\<lparr> fb_agent_id = req_agent_id req, consumer_id = req_consumer_id req,
             success = req_success req, latency_ms = req_latency_ms req,
             rating = req_rating req, created_at = now \<rparr>]"
    and "map_option calls_total (findByAgentId (fst (submitFeedback True now d req)) (req_agent_id req))
          = Some (case findByAgentId d (req_agent_id req) of None \<Rightarrow> 1 | Some s \<Rightarrow> calls_total s + 1)"
proof -
  let ?fa = "analyzeFeedback True now d (req_consumer_id req) (req_agent_id req)"
  let ?d1 = "createFeedback now (fst ?fa) (req_agent_id req)
                                    (req_consumer_id req) (req_success req)
                                    (req_latency_ms req) (req_rating req)"
  have nb: "\<not> shouldBlock (snd ?fa)"
    using spam by (simp add: analyzeFeedback_block)
  have res: "submitFeedback True now d req
           = (incrementFeedbackWeighted now ?d1 (req_agent_id req) (req_success req)
               (req_latency_ms req) (req_rating req) (totalWeight (snd ?fa)), Inr ())"
    using valid rate agent nb by (simp add: submitFeedback_def Let_def)
  have st: "findByAgentId ?d1 (req_agent_id req) = findByAgentId d (req_agent_id req)"
    by (simp add: findByAgentId_def createFeedback_def analyzeFeedback_frame)
  show "snd (submitFeedback True now d req) = Inr ()"
    by (simp add: res)
  show "agents (fst (submitFeedback True now d req)) = agents d"
    by (simp add: res incrementFeedbackWeighted_frame createFeedback_def analyzeFeedback_frame)
  show "agent_feedbacks (fst (submitFeedback True now d req)) = agent_feedbacks d @
          [\<lparr> fb_agent_id = req_agent_id req, consumer_id = req_consumer_id req,
             success = req_success req, latency_ms = req_latency_ms req,
             rating = req_rating req, created_at = now \<rparr>]"
    by (simp add: res incrementFeedbackWeighted_frame createFeedback_def analyzeFeedback_frame)
  show "map_option calls_total (findByAgentId (fst (submitFeedback True now d req)) (req_agent_id req))
          = Some (case findByAgentId d (req_agent_id req) of None \<Rightarrow> 1 | Some s \<Rightarrow> calls_total s + 1)"
    by (simp add: res incrementFeedbackWeighted_calls_total st)
qed

lemma submitFeedback_blocked:
  assumes valid: "validateFeedbackRequest req = None"
    and rate: "countRecentByConsumer now d (req_consumer_id req) 1 < 60"
    and agent: "findById d (req_agent_id req) = Some ag"
    and spam: "countRecentByConsumerAndAgent now d (req_consumer_id req) (req_agent_id req) 1 > 10"
  shows "snd (submitFeedback True now d req) = Inl Blocked_spam"
    and "agents (fst (submitFeedback True now d req)) = agents d"
    and "agent_feedbacks (fst (submitFeedback True now d req)) = agent_feedbacks d"
    and "agent_stats (fst (submitFeedback True now d req)) = agent_stats d"
proof -
  let ?fa = "analyzeFeedback True now d (req_consumer_id req) (req_agent_id req)"
  have b: "shouldBlock (snd ?fa)"
    using spam by (simp add: analyzeFeedback_block)
  have res: "submitFeedback True now d req = (fst ?fa, Inl Blocked_spam)"
    using valid rate agent b by (simp add: submitFeedback_def Let_def)
  show "snd (submitFeedback True now d req) = Inl Blocked_spam"
    and "agents (fst (submitFeedback True now d req)) = agents d"
    and "agent_feedbacks (fst (submitFeedback True now d req)) = agent_feedbacks d"
    and "agent_stats (fst (submitFeedback True now d req)) = agent_stats d"
    by (simp_all add: res analyzeFeedback_frame)
qed

lemma submitAll_append:
  "submitAll p d (xs @ ys) = submitAll p (submitAll p d xs) ys"
  by (induction xs arbitrary: d) simp_all

lemma fbReq_valid: "validateFeedbackRequest fbReq = None"
  by (simp add: validateFeedbackRequest_def fbReq_def trim_def is_space_def)

lemma burst_state:
  "n \<le> 11 \<Longrightarrow>
     agents (submitAll True db_registered (burst n)) = agents db_registered
   \<and> agent_feedbacks (submitAll True db_registered (burst n)) = map burstRow [0..<n]
   \<and> map_option calls_total (findByAgentId (submitAll True db_registered (burst n)) ''agent:a'')
       = Some (int n)"
proof (induction n)
  case 0
  then show ?case
    by (simp add: burst_def db_registered_def findByAgentId_def mkStats_def)
next
  case (Suc n)
  let ?d = "submitAll True db_registered (burst n)"
  have n: "n \<le> 10" using Suc.prems by simp
  have IH: "agents ?d = agents db_registered" "agent_feedbacks ?d = map burstRow [0..<n]"
    "map_option calls_total (findByAgentId ?d ''agent:a'') = Some (int n)"
    using Suc.IH n by simp_all
  have step: "submitAll True db_registered (burst (Suc n))
            = fst (submitFeedback True (int n * 300000) ?d fbReq)"
    by (simp add: burst_def submitAll_append)
  have rate: "countRecentByConsumer (int n * 300000) ?d (req_consumer_id fbReq) 1 < 60"
  proof -
    have "countRecentByConsumer (int n * 300000) ?d (req_consumer_id fbReq) 1
            \<le> length (agent_feedbacks ?d)"
      unfolding countRecentByConsumer_def by (rule length_filter_le)
    then show ?thesis using n by (simp add: IH(2))
  qed
  have spam: "countRecentByConsumerAndAgent (int n * 300000) ?d (req_consumer_id fbReq)
                (req_agent_id fbReq) 1 \<le> 10"
  proof -
    have "countRecentByConsumerAndAgent (int n * 300000) ?d (req_consumer_id fbReq)
                (req_agent_id fbReq) 1 \<le> length (agent_feedbacks ?d)"
      unfolding countRecentByConsumerAndAgent_def by (rule length_filter_le)
    then show ?thesis using n by (simp add: IH(2))
  qed
  have agent: "findById ?d (req_agent_id fbReq) = Some (mkAgent ''agent:a'' Active)"
    unfolding findById_def IH(1) by (simp add: db_registered_def fbReq_def mkAgent_def)
  note acc = submitFeedback_accepted[OF fbReq_valid rate agent spam]
  have ct: "findByAgentId ?d (req_agent_id fbReq) \<noteq> None"
    using IH(3) by (auto simp: fbReq_def)
  show ?case
    unfolding step
    using acc(2) acc(3) acc(4) IH
    by (auto simp: fbReq_def burstRow_def split: option.splits)
qed

lemma burst_ready:
  assumes "n \<le> 11"
  shows "countRecentByConsumer now (submitAll True db_registered (burst n)) (req_consumer_id fbReq) 1 < 60"
    and "findById (submitAll True db_registered (burst n)) (req_agent_id fbReq)
           = Some (mkAgent ''agent:a'' Active)"
    and "countRecentByConsumerAndAgent now (submitAll True db_registered (burst n))
           (req_consumer_id fbReq) (req_agent_id fbReq) 1 \<le> n"
proof -
  let ?d = "submitAll True db_registered (burst n)"
  have st: "agents ?d = agents db_registered" "agent_feedbacks ?d = map burstRow [0..<n]"
    using burst_state[OF assms] by simp_all
  have "countRecentByConsumer now ?d (req_consumer_id fbReq) 1 \<le> length (agent_feedbacks ?d)"
    unfolding countRecentByConsumer_def by (rule length_filter_le)
  then show "countRecentByConsumer now ?d (req_consumer_id fbReq) 1 < 60"
    using assms by (simp add: st(2))
  show "findById ?d (req_agent_id fbReq) = Some (mkAgent ''agent:a'' Active)"
    unfolding findById_def st(1) by (simp add: db_registered_def fbReq_def mkAgent_def)
  have "countRecentByConsumerAndAgent now ?d (req_consumer_id fbReq) (req_agent_id fbReq) 1
          \<le> length (agent_feedbacks ?d)"
    unfolding countRecentByConsumerAndAgent_def by (rule length_filter_le)
  then show "countRecentByConsumerAndAgent now ?d (req_consumer_id fbReq) (req_agent_id fbReq) 1 \<le> n"
    by (simp add: st(2))
qed

lemma burst_eleven_recent:
  "countRecentByConsumerAndAgent 3300000 (submitAll True db_registered (burst 11))
     (req_consumer_id fbReq) (req_agent_id fbReq) 1 = 11"
proof -
  have f: "agent_feedbacks (submitAll True db_registered (burst 11)) = map burstRow [0..<11]"
    using burst_state[of 11] by simp
  have "length (filter (\<lambda>f. consumer_id f = req_consumer_id fbReq \<and> fb_agent_id f = req_agent_id fbReq
                         \<and> created_at f > 3300000 - 1 * 3600000) (map burstRow [0..<11])) = 11"
    by code_simp
  then show ?thesis
    unfolding countRecentByConsumerAndAgent_def f .
qed

subsection \<open>Statistics\<close>

text \<open>
  C3. A statistics row whose counters satisfy \<open>0 \<le> calls_success \<le> calls_total\<close> and whose
  mean rating lies in \<open>[0, 1]\<close> when \<open>calls_total > 0\<close> keeps both properties under an update
  with a rating in \<open>[0, 1]\<close> and a weight in \<open>(0, 1]\<close>, and therefore under every sequence of
  feedback submissions, at whatever times and from whatever consumers: a rejected
  submission leaves the statistics alone, an accepted one has passed the validation of
  the rating and carries a weight in \<open>(0, 1]\<close>. The rows created at registration (all
  zeros) and by the first feedback satisfy the invariant.
\<close>

theorem C3_stats_invariant:
  assumes "\<forall>s \<in> set (agent_stats d). statsInvariant s"
  shows "(0 \<le> r \<and> r \<le> 1 \<and> 0 \<le> l \<and> 0 < w \<and> w \<le> 1 \<longrightarrow>
            (\<forall>s \<in> set (agent_stats (incrementFeedbackWeighted now d a b l r w)).
               0 \<le> calls_success s \<and> calls_success s \<le> calls_total s
               \<and> (calls_total s > 0 \<longrightarrow> 0 \<le> avg_rating s \<and> avg_rating s \<le> 1)))
       \<and> (\<forall>s \<in> set (agent_stats (submitAll production d xs)).
               0 \<le> calls_success s \<and> calls_success s \<le> calls_total s
               \<and> (calls_total s > 0 \<longrightarrow> 0 \<le> avg_rating s \<and> avg_rating s \<le> 1))"
proof -
  have one: "0 \<le> r \<and> r \<le> 1 \<and> 0 \<le> l \<and> 0 < w \<and> w \<le> 1 \<longrightarrow>
      (\<forall>s \<in> set (agent_stats (incrementFeedbackWeighted now d a b l r w)). statsInvariant s)"
    using incrementFeedbackWeighted_invariant[OF assms] by blast
  have all: "\<forall>s \<in> set (agent_stats (submitAll production d xs)). statsInvariant s"
    by (rule submitAll_invariant[OF assms])
  show ?thesis
    using one all unfolding statsInvariant_def by blast
qed

theorem C3_stats_invariant_witness:
  "list_all statsInvariant (agent_stats db_registered)
   \<and> map_option calls_total (findByAgentId (submitAll True db_registered (burst 3)) ''agent:a'')
        = Some 3
   \<and> map_option (\<lambda>s. 0 \<le> calls_success s \<and> calls_success s \<le> calls_total s
                       \<and> 0 \<le> avg_rating s \<and> avg_rating s \<le> 1)
        (findByAgentId (submitAll True db_registered (burst 3)) ''agent:a'') = Some True"
proof -
  let ?d = "submitAll True db_registered (burst 3)"
  have h: "\<forall>s \<in> set (agent_stats db_registered). statsInvariant s"
    by (simp add: db_registered_def mkStats_def statsInvariant_def)
  have c: "map_option calls_total (findByAgentId ?d ''agent:a'') = Some 3"
    using burst_state[of 3] by simp
  then obtain s where s: "findByAgentId ?d ''agent:a'' = Some s" and t: "calls_total s = 3"
    by auto
  have "s \<in> set (agent_stats ?d)"
    using s by (auto simp: findByAgentId_def find_Some_iff)
  then have "0 \<le> calls_success s \<and> calls_success s \<le> calls_total s
       \<and> (calls_total s > 0 \<longrightarrow> 0 \<le> avg_rating s \<and> avg_rating s \<le> 1)"
    using C3_stats_invariant[OF h, of 1 100 "1 / 2" 0 "''agent:a''" True True "burst 3"]
    by blast
  then show ?thesis
    using h c s t by (simp add: list_all_iff)
qed

subsection \<open>Spam blocking\<close>

text \<open>
  C4 (as stated) fails. A consumer sends a feedback for the same agent every five minutes
  from time 0: eleven feedbacks within 50 minutes. The eleventh, sent when ten are on
  record, is accepted, and the statistics count eleven calls.
\<close>

theorem C4_eleventh_feedback_counterexample:
  "map fst (burst 11) = [0, 300000, 600000, 900000, 1200000, 1500000, 1800000, 2100000,
                          2400000, 2700000, 3000000]
   \<and> snd (submitFeedback True 3000000 (submitAll True db_registered (burst 10)) fbReq) = Inr ()
   \<and> map_option calls_total (findByAgentId (submitAll True db_registered (burst 11)) ''agent:a'')
       = Some 11"
proof -
  have t: "map fst (burst 11) = [0, 300000, 600000, 900000, 1200000, 1500000, 1800000, 2100000,
                          2400000, 2700000, 3000000]"
    by code_simp
  have n: "(10::nat) \<le> 11" by simp
  have s: "countRecentByConsumerAndAgent 3000000 (submitAll True db_registered (burst 10))
           (req_consumer_id fbReq) (req_agent_id fbReq) 1 \<le> 10"
    using burst_ready(3)[OF n, of 3000000] by simp
  have a: "snd (submitFeedback True 3000000 (submitAll True db_registered (burst 10)) fbReq) = Inr ()"
    by (rule submitFeedback_accepted(1)[OF fbReq_valid burst_ready(1)[OF n] burst_ready(2)[OF n] s])
  have c: "map_option calls_total (findByAgentId (submitAll True db_registered (burst 11)) ''agent:a'')
             = Some 11"
    using burst_state[of 11] by simp
  show ?thesis using t a c by blast
qed

text \<open>
  C4 (as amended). In production mode a feedback submission that passes the validation,
  the rate limit and the agent lookup fails with the spam-block error exactly when more
  than 10 feedbacks from the same consumer to the same agent are already on record within
  the last hour; it then adds no feedback row and leaves the statistics untouched.
  Otherwise it succeeds, its row is recorded and the agent's call counter grows by one.
  So of twelve feedbacks within an hour the first eleven are accepted and the twelfth
  fails, the statistics reflecting eleven updates.
\<close>

theorem C4_spam_block:
  assumes "validateFeedbackRequest req = None"
    and "countRecentByConsumer now d (req_consumer_id req) 1 < 60"
    and "findById d (req_agent_id req) = Some ag"
  shows "(countRecentByConsumerAndAgent now d (req_consumer_id req) (req_agent_id req) 1 > 10 \<longrightarrow>
            snd (submitFeedback True now d req) = Inl Blocked_spam
          \<and> agent_feedbacks (fst (submitFeedback True now d req)) = agent_feedbacks d
          \<and> agent_stats (fst (submitFeedback True now d req)) = agent_stats d)
       \<and> (countRecentByConsumerAndAgent now d (req_consumer_id req) (req_agent_id req) 1 \<le> 10 \<longrightarrow>
            snd (submitFeedback True now d req) = Inr ()
          \<and> agent_feedbacks (fst (submitFeedback True now d req)) = agent_feedbacks d @
              [\<lparr> fb_agent_id = req_agent_id req, consumer_id = req_consumer_id req,
                 success = req_success req, latency_ms = req_latency_ms req,
                 rating = req_rating req, created_at = now \<rparr>]
          \<and> map_option calls_total
               (findByAgentId (fst (submitFeedback True now d req)) (req_agent_id req))
              = Some (case findByAgentId d (req_agent_id req) of
                        None \<Rightarrow> 1 | Some s \<Rightarrow> calls_total s + 1))"
  using submitFeedback_blocked[OF assms] submitFeedback_accepted[OF assms]
  by blast

theorem C4_spam_block_witness:
  "validateFeedbackRequest fbReq = None
   \<and> countRecentByConsumer 3300000 (submitAll True db_registered (burst 11)) (req_consumer_id fbReq) 1 < 60
   \<and> findById (submitAll True db_registered (burst 11)) (req_agent_id fbReq)
       = Some (mkAgent ''agent:a'' Active)
   \<and> countRecentByConsumerAndAgent 3300000 (submitAll True db_registered (burst 11))
       (req_consumer_id fbReq) (req_agent_id fbReq) 1 > 10
   \<and> snd (submitFeedback True 3300000 (submitAll True db_registered (burst 11)) fbReq) = Inl Blocked_spam
   \<and> map_option calls_total
        (findByAgentId (fst (submitFeedback True 3300000 (submitAll True db_registered (burst 11)) fbReq))
           ''agent:a'') = Some 11"
proof -
  let ?d = "submitAll True db_registered (burst 11)"
  have n: "(11::nat) \<le> 11" by simp
  have r: "countRecentByConsumer 3300000 ?d (req_consumer_id fbReq) 1 < 60"
    by (rule burst_ready(1)[OF n])
  have a: "findById ?d (req_agent_id fbReq) = Some (mkAgent ''agent:a'' Active)"
    by (rule burst_ready(2)[OF n])
  have s: "countRecentByConsumerAndAgent 3300000 ?d (req_consumer_id fbReq) (req_agent_id fbReq) 1 > 10"
    by (simp add: burst_eleven_recent)
  have c: "map_option calls_total (findByAgentId ?d ''agent:a'') = Some 11"
    using burst_state[of 11] by simp
  have b: "snd (submitFeedback True 3300000 ?d fbReq) = Inl Blocked_spam
         \<and> agent_stats (fst (submitFeedback True 3300000 ?d fbReq)) = agent_stats ?d"
    using C4_spam_block[OF fbReq_valid r a] s by blast
  then have "findByAgentId (fst (submitFeedback True 3300000 ?d fbReq)) ''agent:a''
           = findByAgentId ?d ''agent:a''"
    by (simp add: findByAgentId_def)
  then show ?thesis
    using fbReq_valid r a s b c by simp
qed

section \<open>Properties of the search engine\<close>

subsection \<open>Geo score\<close>

text \<open>
  C7 (as stated) fails: for an agent with scope \<open>Global\<close> and a request without location
  the geo factor is 0.3, not 1.0.
\<close>

theorem C7_global_counterexample:
  "location_scope (mkAgent ''agent:a'' Active) = ''Global''
   \<and> falsy (search_location request_no_location)
   \<and> calculateGeoScore (location_scope (mkAgent ''agent:a'' Active))
         (search_location request_no_location) \<noteq> 1.0"
  by (simp add: calculateGeoScore_def falsy_def mkAgent_def request_no_location_def request_none_def)

text \<open>
  C7 (as amended). When the request carries no location or the agent has no location, the
  geo factor of the score is 0.3 if the agent's \<open>location_scope\<close> is \<open>Global\<close> and 0.5
  otherwise.
\<close>

theorem C7_geo_without_location:
  assumes "falsy (search_location request) \<or> location_scope a = []"
  shows "calculateGeoScore (location_scope a) (search_location request)
           = (if location_scope a = ''Global'' then 0.3 else 0.5)"
  using assms by (simp add: calculateGeoScore_def)

theorem C7_geo_without_location_witness:
  "(falsy (search_location request_no_location) \<or> location_scope agent_sp = [])
   \<and> calculateGeoScore (location_scope agent_sp) (search_location request_no_location) = 0.5
   \<and> (falsy (search_location request_no_location) \<or> location_scope (mkAgent ''agent:a'' Active) = [])
   \<and> calculateGeoScore (location_scope (mkAgent ''agent:a'' Active))
        (search_location request_no_location) = 0.3"
proof -
  have h: "falsy (search_location request_no_location) \<or> location_scope agent_sp = []"
    by (simp add: falsy_def request_no_location_def request_none_def)
  have g: "falsy (search_location request_no_location) \<or> location_scope (mkAgent ''agent:a'' Active) = []"
    by (simp add: falsy_def request_no_location_def request_none_def)
  show ?thesis
    using h g C7_geo_without_location[OF h] C7_geo_without_location[OF g]
    by (simp add: agent_sp_def mkAgent_def)
qed

subsection \<open>Search results\<close>

lemma normalizeLocation_Some:
  "normalizeLocation l \<noteq> None \<Longrightarrow> normalizeLocation l = l"
  by (auto simp: normalizeLocation_def Let_def split: option.splits if_splits)

lemma normalizeLocation_falsy:
  "falsy (normalizeLocation l) \<longleftrightarrow> normalizeLocation l = None"
  by (auto simp: normalizeLocation_def falsy_def Let_def split: option.splits if_splits)

lemma searchAgents_subset: "set (searchAgents d i c l) \<subseteq> set (agents d)"
  by (auto simp: searchAgents_def)

lemma searchByIntentFuzzy_subset:
  "searchByIntentFuzzy sim d i n = Inr xs \<Longrightarrow> set xs \<subseteq> set (agents d)"
  by (auto simp: searchByIntentFuzzy_def split: if_splits option.splits dest!: in_set_takeD)

lemma fetchAgents_subset:
  assumes "fetchAgents sim d request = Inr xs"
  shows "set xs \<subseteq> set (agents d)"
  using assms searchAgents_subset[of d] searchByIntentFuzzy_subset[of sim d]
  unfolding fetchAgents_def Let_def findAll_def
  by (auto split: if_splits sum.splits)

lemma set_slice0: "set (slice0 xs n) \<subseteq> set xs"
  by (auto simp: slice0_def dest: in_set_takeD)

lemma calculateScore_agent [simp]: "ws_agent (calculateScore p d a request) = ws_agent a"
  by (simp add: calculateScore_def Let_def)

lemma rankAgents_member:
  assumes "x \<in> set (rankAgents production d request fetched)"
  shows "ws_agent x \<in> set fetched \<and> status (ws_agent x) \<noteq> Some Banned
       \<and> x = calculateScore production d
               \<lparr> ws_agent = ws_agent x, ws_stats = findByAgentId d (ident (ws_agent x)),
                 ws_score = 0 \<rparr> request
       \<and> ws_score x \<ge> 0.4
       \<and> (normalizeLocation (search_location request) \<noteq> None \<longrightarrow>
            location_scope (ws_agent x) = ''Global''
          \<or> calculateGeoScore (location_scope (ws_agent x)) (search_location request) \<ge> 0.3)"
proof -
  let ?nl = "normalizeLocation (search_location request)"
  let ?scored = "map (\<lambda>a. calculateScore production d a request)
                  (map (\<lambda>a. \<lparr> ws_agent = a, ws_stats = findByAgentId d (ident a), ws_score = 0 \<rparr>)
                     (filter (\<lambda>a. status a \<noteq> Some Banned) fetched))"
  let ?ok = "\<lambda>a. ws_score a \<ge> 0.4 \<and> (falsy ?nl \<or> location_scope (ws_agent a) = ''Global''
                    \<or> calculateGeoScore (location_scope (ws_agent a)) ?nl \<ge> 0.3)"
  have "x \<in> set (filter ?ok ?scored)"
    using assms set_slice0[of "sort_key (\<lambda>a. - ws_score a) (filter ?ok ?scored)"]
    unfolding rankAgents_def Let_def
    by (auto split: if_splits)
  then have ok: "?ok x" and sc: "x \<in> set ?scored" by auto
  from sc obtain a where a: "a \<in> set fetched" "status a \<noteq> Some Banned"
    and x: "x = calculateScore production d
               \<lparr> ws_agent = a, ws_stats = findByAgentId d (ident a), ws_score = 0 \<rparr> request"
    by auto
  have ag: "ws_agent x = a" by (simp add: x)
  have geo: "?nl \<noteq> None \<longrightarrow> location_scope (ws_agent x) = ''Global''
          \<or> calculateGeoScore (location_scope (ws_agent x)) (search_location request) \<ge> 0.3"
  proof
    assume n: "?nl \<noteq> None"
    then have "\<not> falsy ?nl" by (simp add: normalizeLocation_falsy)
    moreover have "?nl = search_location request" using n by (rule normalizeLocation_Some)
    ultimately show "location_scope (ws_agent x) = ''Global''
          \<or> calculateGeoScore (location_scope (ws_agent x)) (search_location request) \<ge> 0.3"
      using ok by auto
  qed
  show ?thesis using a x ag ok geo by auto
qed

lemma rounded_score: "0.4 \<le> s \<Longrightarrow> 0.4 \<le> real_of_int (Math_round (s * 100)) / 100"
proof -
  assume "0.4 \<le> s"
  then have "real_of_int 40 \<le> s * 100 + 1 / 2" by simp
  then have "40 \<le> Math_round (s * 100)"
    unfolding Math_round_def by (simp only: le_floor_iff)
  then have "(40::real) \<le> real_of_int (Math_round (s * 100))" by linarith
  then show ?thesis by simp
qed

text \<open>
  C2 (as stated) fails in its last part: a request whose location is the placeholder
  \<open>none\<close> carries a location, and the search returns the agent in Sao Paulo, whose scope
  is not \<open>Global\<close> and whose geo score for that location is 0.2.
\<close>

theorem C2_placeholder_location_counterexample:
  "search_location request_city_none = Some ''none''
   \<and> map_sum id (map res_id) (search True no_similarity db_search request_city_none)
        = Inr [''agent:market:sp'']
   \<and> map ident (agents db_search) = [ident agent_sp]
   \<and> ident agent_sp = ''agent:market:sp''
   \<and> location_scope agent_sp \<noteq> ''Global''
   \<and> calculateGeoScore (location_scope agent_sp) (search_location request_city_none) < 0.3"
  by code_simp

text \<open>
  C2 (as amended). Every item returned by a search is the response built from a scored
  agent of the database that is not banned and whose score is at least 0.4 (so is the
  score rounded to two decimals that the item carries); and if the request carried a
  location that the normalisation of the request leaves in place (not empty and not one of
  the placeholders \<open>null\<close>, \<open>undefined\<close>, \<open>none\<close>, \<open>n/a\<close>, compared case-insensitively),
  the agent has scope \<open>Global\<close> or a geo score of at least 0.3 for that location.
\<close>

theorem C2_search_results:
  assumes "search production similarity d request = Inr results" and "r \<in> set results"
  shows "\<exists>x. r = toResponse x \<and> ws_agent x \<in> set (agents d) \<and> res_id r = ident (ws_agent x)
           \<and> status (ws_agent x) \<noteq> Some Banned
           \<and> x = calculateScore production d
               \<lparr> ws_agent = ws_agent x, ws_stats = findByAgentId d (ident (ws_agent x)),
                 ws_score = 0 \<rparr> request
           \<and> ws_score x \<ge> 0.4 \<and> res_score r \<ge> 0.4
           \<and> (normalizeLocation (search_location request) \<noteq> None \<longrightarrow>
                location_scope (ws_agent x) = ''Global''
              \<or> calculateGeoScore (location_scope (ws_agent x)) (search_location request) \<ge> 0.3)"
proof -
  from assms obtain fetched where f: "fetchAgents similarity d request = Inr fetched"
    and rs: "results = map toResponse (rankAgents production d request fetched)"
    by (auto simp: search_def split: option.splits sum.splits if_splits)
  from assms(2) rs obtain x where x: "x \<in> set (rankAgents production d request fetched)"
    and r: "r = toResponse x" by auto
  note m = rankAgents_member[OF x]
  have "ws_agent x \<in> set (agents d)" using m fetchAgents_subset[OF f] by auto
  moreover have "res_score r \<ge> 0.4"
    using m rounded_score[of "ws_score x"] by (simp add: r toResponse_def)
  moreover have "res_id r = ident (ws_agent x)" by (simp add: r toResponse_def)
  ultimately show ?thesis using m r by blast
qed

theorem C2_search_results_witness:
  "search False no_similarity db_search request_city = Inr [response_city]
   \<and> response_city \<in> set [response_city]
   \<and> normalizeLocation (search_location request_city) \<noteq> None
   \<and> (\<exists>x. response_city = toResponse x \<and> status (ws_agent x) \<noteq> Some Banned
          \<and> ws_score x \<ge> 0.4 \<and> res_score response_city \<ge> 0.4
          \<and> (location_scope (ws_agent x) = ''Global''
              \<or> calculateGeoScore (location_scope (ws_agent x)) (search_location request_city) \<ge> 0.3))"
proof -
  have h: "search False no_similarity db_search request_city = Inr [response_city]"
    by code_simp
  have m: "response_city \<in> set [response_city]"
    by simp
  have n: "normalizeLocation (search_location request_city) \<noteq> None"
    by code_simp
  show ?thesis
    using h m n C2_search_results[OF h m] by blast
qed

text \<open>
  C9 at the failing input. The request carries the location \<open>none\<close>, which the
  normalisation removes, so the geo filter is off; but the score is computed from the
  request as it came in, so the geo factor of the agent in Sao Paulo is 0.2 (the floor of
  a location that matches nothing) where the rule for a missing location gives 0.5. Its
  score falls below the minimum of 0.4 and the search returns nothing, where the same
  request without a location scores the agent above 0.4 and returns it.
\<close>

theorem C9_placeholder_location_scored:
  "normalizeLocation (search_location request_none) = None
   \<and> calculateGeoScore (location_scope agent_sp) (search_location request_none) = 0.2
   \<and> calculateGeoScore (location_scope agent_sp) (search_location request_no_location) = 0.5
   \<and> agents db_search = [agent_sp]
   \<and> ws_score (calculateScore False db_search
                  \<lparr> ws_agent = agent_sp, ws_stats = None, ws_score = 0 \<rparr> request_none) < 0.4
   \<and> ws_score (calculateScore False db_search
                  \<lparr> ws_agent = agent_sp, ws_stats = None, ws_score = 0 \<rparr> request_no_location) > 0.4
   \<and> search False no_similarity db_search request_none = Inr []
   \<and> map_sum id (map res_id) (search False no_similarity db_search request_no_location)
       = Inr [''agent:market:sp'']"
  by code_simp

subsection \<open>Execution keys\<close>

text \<open>
  C1 (as stated) fails: the provider of the agent has a stored secret that can no longer
  be decrypted, and the key of the returned item is signed with the master secret of the
  registry.
\<close>

theorem C1_master_secret_counterexample:
  "map jwt_token (callers db_search) = [Some ''00ff:a1b2c3'']
   \<and> getProviderSecret cannot_decrypt db_search ''provider-0011223344556677'' = None
   \<and> searchRoute False no_similarity cannot_decrypt ''registry-master-secret'' key_ids 1000
         db_search ''consumer-8899aabbccddeeff'' request_city = Inr [result_master]
   \<and> res_caller_id (item result_master) = Some ''provider-0011223344556677''
   \<and> signed_with (execution_key result_master) = ''registry-master-secret''"
  by code_simp

text \<open>
  C1 (as amended). The search route returns the items of the search, each with an
  execution key for that agent and the calling consumer, signed with the provider's
  secret when the agent's owner is a provider whose stored secret decrypts to a non-empty
  text, and with the master secret of the registry otherwise; the key has a lifetime of
  300 seconds and \<open>key_expires_at\<close> is exactly 5 minutes after the time of the request.
\<close>

theorem C1_execution_keys:
  assumes "searchRoute production similarity decryptSecret JWT_SECRET keyIds now d callerId request
             = Inr results"
  shows "search production similarity d request = Inr (map item results)
       \<and> (\<forall>r \<in> set results.
             key_agent_id (execution_key r) = res_id (item r)
           \<and> consumer_caller_id (execution_key r) = callerId
           \<and> expiresIn (execution_key r) = 300
           \<and> key_expires_at r = now + 5 * 60 * 1000
           \<and> signed_with (execution_key r) =
               (case (case res_caller_id (item r) of
                        None \<Rightarrow> None
                      | Some c \<Rightarrow> if c = [] then None else getProviderSecret decryptSecret d c) of
                  None \<Rightarrow> JWT_SECRET
                | Some s \<Rightarrow> if s = [] then JWT_SECRET else s))"
proof -
  from assms obtain found where s: "search production similarity d request = Inr found"
    and rs: "results = map (\<lambda>(i, a). withKey decryptSecret JWT_SECRET now d callerId (keyIds i) a)
               (enumerate 0 found)"
    by (auto simp: searchRoute_def split: sum.splits)
  have "map item results = map snd (enumerate 0 found)"
    unfolding rs by (simp add: withKey_def Let_def case_prod_unfold comp_def)
  then have i: "map item results = found" by simp
  have k: "\<And>i a. let r = withKey decryptSecret JWT_SECRET now d callerId (keyIds i) a in
             key_agent_id (execution_key r) = res_id (item r)
           \<and> consumer_caller_id (execution_key r) = callerId
           \<and> expiresIn (execution_key r) = 300
           \<and> key_expires_at r = now + 5 * 60 * 1000
           \<and> signed_with (execution_key r) =
               (case (case res_caller_id (item r) of
                        None \<Rightarrow> None
                      | Some c \<Rightarrow> if c = [] then None else getProviderSecret decryptSecret d c) of
                  None \<Rightarrow> JWT_SECRET
                | Some s \<Rightarrow> if s = [] then JWT_SECRET else s)"
    by (simp add: withKey_def generateExecutionKey_def EXECUTION_KEY_EXPIRATION_def Let_def falsy_def
        split: option.splits)
  show ?thesis
    using s i k unfolding rs by (auto simp: Let_def)
qed

theorem C1_execution_keys_witness:
  "searchRoute False no_similarity can_decrypt ''registry-master-secret'' key_ids 1000 db_search
        ''consumer-8899aabbccddeeff'' request_city = Inr [result_city]
   \<and> search False no_similarity db_search request_city = Inr [item result_city]
   \<and> getProviderSecret can_decrypt db_search ''provider-0011223344556677''
        = Some ''secret-of-the-provider''
   \<and> signed_with (execution_key result_city) = ''secret-of-the-provider''
   \<and> key_expires_at result_city = 1000 + 5 * 60 * 1000"
proof -
  have h: "searchRoute False no_similarity can_decrypt ''registry-master-secret'' key_ids 1000
             db_search ''consumer-8899aabbccddeeff'' request_city = Inr [result_city]"
    by code_simp
  have g: "getProviderSecret can_decrypt db_search ''provider-0011223344556677''
             = Some ''secret-of-the-provider''"
    by code_simp
  have s: "signed_with (execution_key result_city) = ''secret-of-the-provider''"
    by (simp add: result_city_def)
  show ?thesis
    using h g s C1_execution_keys[OF h] by simp
qed

end
